theory Spec2Isabelle
  imports Main "HOL-Library.Sublist"
begin

section \<open>JavaScript values\<close>

text \<open>
  The values that travel through the client: the JSON documents the bank returns, the
  request bodies, the fields of the configuration store. A number \<open>JNum n\<close> is a number
  whose value is the integer \<open>n\<close>, as JSON carries them for identifiers and status
  codes; an object is the list of its properties, in insertion order, with pairwise
  distinct names. A string is the list of the bytes of its UTF-8 encoding, so that a
  character of ASCII is one \<open>char\<close> below 128 and every other character is a run of
  \<open>char\<close>s from 128 on.
\<close>

datatype jsval =
    JUndefined
  | JNull
  | JBool bool
  | JNum int
  | JStr string
  | JArr "jsval list"
  | JObj "(string \<times> jsval) list"

text \<open>What \<^verbatim>\<open>if (v)\<close>, \<^verbatim>\<open>!v\<close> and \<^verbatim>\<open>a || b\<close> test.\<close>

fun truthy :: "jsval \<Rightarrow> bool" where
  "truthy JUndefined = False"
| "truthy JNull = False"
| "truthy (JBool b) = b"
| "truthy (JNum n) = (n \<noteq> 0)"
| "truthy (JStr s) = (s \<noteq> [])"
| "truthy (JArr xs) = True"
| "truthy (JObj kvs) = True"

definition js_or :: "jsval \<Rightarrow> jsval \<Rightarrow> jsval" where
  "js_or a b = (if truthy a then a else b)"

text \<open>A parameter declared \<^verbatim>\<open>p = null\<close> replaces \<^verbatim>\<open>undefined\<close> only.\<close>

definition default_null :: "jsval \<Rightarrow> jsval" where
  "default_null v = (if v = JUndefined then JNull else v)"

text \<open>
  Errors that can be thrown: \<^verbatim>\<open>new Error(msg)\<close> of the client itself, the engine's
  \<^verbatim>\<open>TypeError\<close> (reading a property of \<^verbatim>\<open>null\<close> or \<^verbatim>\<open>undefined\<close>, iterating a value
  that is not iterable), and whatever the HTTP library or the crypto library rejects
  with: an optional \<^verbatim>\<open>response\<close> (status and data) and a \<^verbatim>\<open>message\<close>.
\<close>

datatype js_error =
    Error string
  | TypeError
  | Rejected "(int \<times> jsval) option" string

text \<open>
  Property access \<^verbatim>\<open>v.k\<close>. The names read by the client (\<^verbatim>\<open>Response\<close>, \<^verbatim>\<open>Token\<close>,
  \<^verbatim>\<open>token\<close>, \<^verbatim>\<open>ServerPublicKey\<close>, \<^verbatim>\<open>server_public_key\<close>, \<^verbatim>\<open>UserPerson\<close>,
  \<^verbatim>\<open>UserCompany\<close>, \<^verbatim>\<open>UserApiKey\<close>, \<^verbatim>\<open>id\<close>) are no built-in property of a string, a
  number, a boolean or an array, so on those the access yields \<^verbatim>\<open>undefined\<close>.
\<close>

fun get_prop :: "jsval \<Rightarrow> string \<Rightarrow> js_error + jsval" where
  "get_prop JUndefined k = Inl TypeError"
| "get_prop JNull k = Inl TypeError"
| "get_prop (JObj kvs) k = Inr (case map_of kvs k of None \<Rightarrow> JUndefined | Some v \<Rightarrow> v)"
| "get_prop v k = Inr JUndefined"

text \<open>The items \<^verbatim>\<open>for (const item of v)\<close> visits: an array's elements, a string's characters.\<close>

fun iterate :: "jsval \<Rightarrow> js_error + jsval list" where
  "iterate (JArr xs) = Inr xs"
| "iterate (JStr s) = Inr (map (\<lambda>c. JStr [c]) s)"
| "iterate v = Inl TypeError"

subsection \<open>Decimal numerals\<close>

function dec_nat :: "nat \<Rightarrow> string" where
  "dec_nat n = (if n < 10 then [''0123456789'' ! n] else dec_nat (n div 10) @ [''0123456789'' ! (n mod 10)])"
  by pat_completeness auto
termination
  by (relation "measure id") auto

declare dec_nat.simps [simp del]

definition dec_int :: "int \<Rightarrow> string" where
  "dec_int i = (if i < 0 then CHR ''-'' # dec_nat (nat (- i)) else dec_nat (nat i))"

fun join_comma :: "string list \<Rightarrow> string" where
  "join_comma [] = []"
| "join_comma [s] = s"
| "join_comma (s # t # ss) = s @ '','' @ join_comma (t # ss)"

section \<open>The configuration store, the platform and the world\<close>

text \<open>
  Modelled from the spec: the \<^verbatim>\<open>store\<close> object of \<^verbatim>\<open>config.js\<close>, whose source is not
  part of the files at hand. The specification gives it as a durable key-value
  persistence with read, write and delete by field name: a map from field names to
  values, \<^verbatim>\<open>store.set\<close> an update, \<^verbatim>\<open>store.delete\<close> a removal, \<^verbatim>\<open>store.clear\<close> the empty
  map.
\<close>

type_synonym store = "string \<rightharpoonup> jsval"

text \<open>
  Modelled from the spec: \<^verbatim>\<open>getConfig()\<close> of \<^verbatim>\<open>config.js\<close>, whose source is not part of
  the files at hand. The specification gives the collaborator as
  \<^verbatim>\<open>readCredentialField(name)\<close>: the configuration object is a snapshot of the store,
  a field that is not stored reads as \<^verbatim>\<open>undefined\<close>.
\<close>

definition getConfig :: "store \<Rightarrow> string \<Rightarrow> jsval" where
  "getConfig st k = (case st k of None \<Rightarrow> JUndefined | Some v \<Rightarrow> v)"

record request =
  req_method :: string
  req_url :: string
  req_data :: jsval
  req_headers :: "(string \<times> jsval) list"

text \<open>
  What the client uses and does not define: \<^verbatim>\<open>JSON.stringify\<close>;
  \<^verbatim>\<open>String.prototype.toUpperCase\<close> on a string that has a character beyond ASCII, where
  the mapping is Unicode's (\<open>upper_unicode\<close>); the conversion of a number of magnitude
  \<open>10^21\<close> or more to a string, which is in exponent form (\<open>exponent_String\<close>); the SHA-256 signature
  of \<^verbatim>\<open>crypto.createSign\<close> in base64 (\<open>None\<close> when it throws); the random sources
  \<^verbatim>\<open>crypto.generateKeyPairSync\<close> and \<^verbatim>\<open>crypto.randomUUID\<close>, each a stream indexed by the
  number of draws made so far; \<^verbatim>\<open>getBaseUrl()\<close> of \<^verbatim>\<open>config.js\<close>, a function of the
  stored configuration; and \<^verbatim>\<open>axios\<close> with the remote end behind it, which answers a
  request, knowing the requests sent before, with the response data or an error.
\<close>

record platform =
  stringify :: "jsval \<Rightarrow> string"
  upper_unicode :: "string \<Rightarrow> string"
  exponent_String :: "int \<Rightarrow> string"
  rsa_sha256 :: "string \<Rightarrow> jsval \<Rightarrow> string option"
  generateKeyPairSync :: "nat \<Rightarrow> js_error + (string \<times> string)"
  randomUUID :: "nat \<Rightarrow> string"
  getBaseUrl :: "(string \<Rightarrow> jsval) \<Rightarrow> string"
  axios :: "request list \<Rightarrow> request \<Rightarrow> js_error + jsval"

text \<open>What \<^verbatim>\<open>output.js\<close> and the spinner write.\<close>

datatype console =
    Success string
  | ErrorLine string
  | ErrorEngine
  | Info string
  | SpinnerStart string
  | SpinnerText string
  | SpinnerFail string
  | SpinnerSucceed string

record world =
  store :: store
  trace :: "request list"
  out :: "console list"
  draws :: nat

definition emit :: "console \<Rightarrow> world \<Rightarrow> world" where
  "emit c w = w\<lparr>out := out w @ [c]\<rparr>"

definition store_set :: "string \<Rightarrow> jsval \<Rightarrow> world \<Rightarrow> world" where
  "store_set k v w = w\<lparr>store := (store w)(k \<mapsto> v)\<rparr>"

definition store_delete :: "string \<Rightarrow> world \<Rightarrow> world" where
  "store_delete k w = w\<lparr>store := (store w)(k := None)\<rparr>"

text \<open>How a command ends: it returns, or \<^verbatim>\<open>process.exit(code)\<close> ends the process.\<close>

datatype outcome = Returned | Exited int

subsection \<open>Conversion to string, upper case\<close>

text \<open>
  \<^verbatim>\<open>String(n)\<close> of a number with an integer value: the decimal numeral when the
  magnitude is below \<open>10^21\<close>, the exponent form from there on.
\<close>

definition num_String :: "platform \<Rightarrow> int \<Rightarrow> string" where
  "num_String P n = (if \<bar>n\<bar> < 10 ^ 21 then dec_int n else exponent_String P n)"

text \<open>
  \<^verbatim>\<open>String(v)\<close>, also what a template literal does to an interpolated value. An array
  joins its elements with commas, \<^verbatim>\<open>null\<close> and \<^verbatim>\<open>undefined\<close> elements as the empty
  string.
\<close>

fun js_String :: "platform \<Rightarrow> jsval \<Rightarrow> string" where
  "js_String P JUndefined = ''undefined''"
| "js_String P JNull = ''null''"
| "js_String P (JBool b) = (if b then ''true'' else ''false'')"
| "js_String P (JNum n) = num_String P n"
| "js_String P (JStr s) = s"
| "js_String P (JArr xs) =
     join_comma (map (\<lambda>x. if x = JNull \<or> x = JUndefined then [] else js_String P x) xs)"
| "js_String P (JObj kvs) = ''[object Object]''"

text \<open>
  \<^verbatim>\<open>toUpperCase()\<close>. On a string of ASCII characters it maps the letters \<^verbatim>\<open>a\<close> to \<^verbatim>\<open>z\<close>
  to \<^verbatim>\<open>A\<close> to \<^verbatim>\<open>Z\<close> and leaves every other character; on any other string the
  result is the platform's.
\<close>

definition upper_char :: "char \<Rightarrow> char" where
  "upper_char c =
     (case map_of (zip ''abcdefghijklmnopqrstuvwxyz'' ''ABCDEFGHIJKLMNOPQRSTUVWXYZ'') c of
        Some u \<Rightarrow> u
      | None \<Rightarrow> c)"

definition ascii :: "string \<Rightarrow> bool" where
  "ascii s = list_all (\<lambda>c. \<not> digit7 c) s"

definition toUpperCase :: "platform \<Rightarrow> string \<Rightarrow> string" where
  "toUpperCase P s = (if ascii s then map upper_char s else upper_unicode P s)"

section \<open>client.js\<close>

text \<open>
  \<^verbatim>\<open>sign.sign(key, 'base64')\<close> throws on a falsy key before it looks at the data
  (Node: "No key provided to sign"); otherwise the signature, or the failure, is the
  library's. In \<^verbatim>\<open>signRequest\<close> the string to sign is built before the \<^verbatim>\<open>try\<close> block;
  on a method that is a string and a body that is a JSON value neither
  \<^verbatim>\<open>JSON.stringify\<close> nor \<^verbatim>\<open>toUpperCase\<close> throws, and the callers pass nothing else.
  Whatever the \<^verbatim>\<open>try\<close> block throws is caught and the empty string returned.
\<close>

definition crypto_sign :: "platform \<Rightarrow> string \<Rightarrow> jsval \<Rightarrow> string option" where
  "crypto_sign P dataToSign key = (if truthy key then rsa_sha256 P dataToSign key else None)"

definition dataToSign :: "platform \<Rightarrow> string \<Rightarrow> string \<Rightarrow> jsval \<Rightarrow> string" where
  "dataToSign P method endpoint body =
     (let bodyString = (if truthy body then stringify P body else [])
      in toUpperCase P method @ '' /v1'' @ endpoint @ [CHR 0x0A, CHR 0x0A] @ bodyString)"

definition signRequest :: "platform \<Rightarrow> string \<Rightarrow> string \<Rightarrow> jsval \<Rightarrow> jsval \<Rightarrow> string" where
  "signRequest P method endpoint body privateKeyPem =
     (case crypto_sign P (dataToSign P method endpoint body) privateKeyPem of
        Some signature \<Rightarrow> signature
      | None \<Rightarrow> [])"

definition base_headers :: "platform \<Rightarrow> world \<Rightarrow> (string \<times> jsval) list" where
  "base_headers P w =
     [(''Content-Type'', JStr ''application/json''),
      (''Cache-Control'', JStr ''no-cache''),
      (''X-Bunq-Language'', JStr ''en_US''),
      (''X-Bunq-Region'', JStr ''en_US''),
      (''X-Bunq-Client-Request-Id'', JStr (randomUUID P (draws w))),
      (''X-Bunq-Geolocation'', JStr ''0 0 0 0 000'')]"

definition build_request :: "platform \<Rightarrow> string \<Rightarrow> string \<Rightarrow> jsval \<Rightarrow> jsval \<Rightarrow> world \<Rightarrow> request" where
  "build_request P method endpoint body token w =
     (let config = getConfig (store w);
          baseUrl = getBaseUrl P config;
          authToken = js_or (js_or token (config ''sessionToken'')) (config ''installationToken'');
          headers = base_headers P w;
          headers = (if truthy authToken
                     then headers @ [(''X-Bunq-Client-Authentication'', authToken)]
                     else headers);
          headers = (if truthy (config ''privateKey'')
                     then (let signature = signRequest P method endpoint body (config ''privateKey'')
                           in if signature \<noteq> []
                              then headers @ [(''X-Bunq-Client-Signature'', JStr signature)]
                              else headers)
                     else headers)
      in \<lparr>req_method = method, req_url = baseUrl @ endpoint, req_data = body, req_headers = headers\<rparr>)"

text \<open>
  \<^verbatim>\<open>bunqRequest\<close>: the request is assembled from the stored configuration and handed to
  \<^verbatim>\<open>axios\<close>; the result is the response data, or the error \<^verbatim>\<open>axios\<close> throws.
\<close>

definition bunqRequest ::
  "platform \<Rightarrow> string \<Rightarrow> string \<Rightarrow> jsval \<Rightarrow> jsval \<Rightarrow> world \<Rightarrow> (js_error + jsval) \<times> world" where
  "bunqRequest P method endpoint body token w =
     (let req = build_request P method endpoint (default_null body) (default_null token) w
      in (axios P (trace w) req, w\<lparr>trace := trace w @ [req], draws := Suc (draws w)\<rparr>))"

definition bunqGet :: "platform \<Rightarrow> string \<Rightarrow> world \<Rightarrow> (js_error + jsval) \<times> world" where
  "bunqGet P endpoint w = bunqRequest P ''GET'' endpoint JUndefined JUndefined w"

definition bunqPost :: "platform \<Rightarrow> string \<Rightarrow> jsval \<Rightarrow> jsval \<Rightarrow> world \<Rightarrow> (js_error + jsval) \<times> world" where
  "bunqPost P endpoint body token w = bunqRequest P ''POST'' endpoint body (default_null token) w"

definition bunqPut :: "platform \<Rightarrow> string \<Rightarrow> jsval \<Rightarrow> world \<Rightarrow> (js_error + jsval) \<times> world" where
  "bunqPut P endpoint body w = bunqRequest P ''PUT'' endpoint body JUndefined w"

definition bunqDelete :: "platform \<Rightarrow> string \<Rightarrow> world \<Rightarrow> (js_error + jsval) \<times> world" where
  "bunqDelete P endpoint w = bunqRequest P ''DELETE'' endpoint JUndefined JUndefined w"

section \<open>output.js\<close>

text \<open>
  \<^verbatim>\<open>handleError\<close> reports the error on the error stream and ends the process with status
  1: the status and data of the response if the error has one, else its message if that
  is not empty, else a fixed text. The message of a \<^verbatim>\<open>TypeError\<close> is the engine's own
  wording, which is not empty and which the source does not fix: \<open>ErrorEngine\<close> stands
  for that line.
\<close>

definition err_response :: "js_error \<Rightarrow> (int \<times> jsval) option" where
  "err_response e = (case e of Rejected r m \<Rightarrow> r | _ \<Rightarrow> None)"

definition err_message :: "js_error \<Rightarrow> string" where
  "err_message e = (case e of Error m \<Rightarrow> m | Rejected r m \<Rightarrow> m | TypeError \<Rightarrow> [])"

definition handleError :: "platform \<Rightarrow> js_error \<Rightarrow> world \<Rightarrow> outcome \<times> world" where
  "handleError P err w =
     (case err_response err of
        Some (status, data) \<Rightarrow>
          (Exited 1, emit (ErrorLine (''HTTP '' @ num_String P status @ '': '' @ stringify P data)) w)
      | None \<Rightarrow>
          if err = TypeError then (Exited 1, emit ErrorEngine w)
          else if err_message err \<noteq> [] then (Exited 1, emit (ErrorLine (err_message err)) w)
          else (Exited 1, emit (ErrorLine ''An unknown error occurred.'') w))"

section \<open>commands/auth.js\<close>

text \<open>A throwing step ends the block it stands in; the next step runs on its value.\<close>

definition thenE :: "js_error + 'a \<Rightarrow> ('a \<Rightarrow> js_error + 'b) \<Rightarrow> js_error + 'b" where
  "thenE r f = (case r of Inl e \<Rightarrow> Inl e | Inr x \<Rightarrow> f x)"

text \<open>
  The loop over the installation response: the last item with a truthy \<^verbatim>\<open>Token\<close> gives
  the installation token, the last with a truthy \<^verbatim>\<open>ServerPublicKey\<close> the server's key.
\<close>

fun scan_installation :: "jsval list \<Rightarrow> jsval \<times> jsval \<Rightarrow> js_error + (jsval \<times> jsval)" where
  "scan_installation [] acc = Inr acc"
| "scan_installation (item # items) (installationToken, serverPublicKey) =
     thenE (get_prop item ''Token'') (\<lambda>tk.
     thenE (if truthy tk then get_prop tk ''token'' else Inr installationToken) (\<lambda>installationToken.
     thenE (get_prop item ''ServerPublicKey'') (\<lambda>sk.
     thenE (if truthy sk then get_prop sk ''server_public_key'' else Inr serverPublicKey) (\<lambda>serverPublicKey.
     scan_installation items (installationToken, serverPublicKey)))))"

definition parse_installation :: "jsval \<Rightarrow> js_error + (jsval \<times> jsval)" where
  "parse_installation installationResp =
     thenE (get_prop installationResp ''Response'') (\<lambda>r.
     thenE (iterate r) (\<lambda>items. scan_installation items (JNull, JNull)))"

text \<open>
  The loop over the session response, the same in \<^verbatim>\<open>setupAuth\<close> and \<^verbatim>\<open>refreshSession\<close>:
  the session token, and the identifier of the user, read from the first of
  \<^verbatim>\<open>UserPerson\<close>, \<^verbatim>\<open>UserCompany\<close>, \<^verbatim>\<open>UserApiKey\<close> that the item has.
\<close>

fun scan_session :: "platform \<Rightarrow> jsval list \<Rightarrow> jsval \<times> jsval \<Rightarrow> js_error + (jsval \<times> jsval)" where
  "scan_session P [] acc = Inr acc"
| "scan_session P (item # items) (sessionToken, userId) =
     thenE (get_prop item ''Token'') (\<lambda>tk.
     thenE (if truthy tk then get_prop tk ''token'' else Inr sessionToken) (\<lambda>sessionToken.
     thenE (get_prop item ''UserPerson'') (\<lambda>up.
     thenE (if truthy up then thenE (get_prop up ''id'') (\<lambda>i. Inr (JStr (js_String P i)))
            else thenE (get_prop item ''UserCompany'') (\<lambda>uc.
              if truthy uc then thenE (get_prop uc ''id'') (\<lambda>i. Inr (JStr (js_String P i)))
              else thenE (get_prop item ''UserApiKey'') (\<lambda>ua.
                if truthy ua then thenE (get_prop ua ''id'') (\<lambda>i. Inr (JStr (js_String P i)))
                else Inr userId))) (\<lambda>userId.
     scan_session P items (sessionToken, userId)))))"

definition parse_session :: "platform \<Rightarrow> jsval \<Rightarrow> js_error + (jsval \<times> jsval)" where
  "parse_session P sessionResp =
     thenE (get_prop sessionResp ''Response'') (\<lambda>r.
     thenE (iterate r) (\<lambda>items. scan_session P items (JNull, JNull)))"

text \<open>
  Steps 1 and 2 of \<^verbatim>\<open>setupAuth\<close>: a new key pair is generated and stored, the public key
  is posted to \<^verbatim>\<open>/installation\<close>, the installation token (and the server's key, if there
  is one) is stored. The value is the installation token.
\<close>

definition setup_installation :: "platform \<Rightarrow> world \<Rightarrow> (js_error + jsval) \<times> world" where
  "setup_installation P w0 =
     (let w = emit (SpinnerText ''Generating RSA key pair...'') w0
      in case generateKeyPairSync P (draws w) of
           Inl e \<Rightarrow> (Inl e, w\<lparr>draws := Suc (draws w)\<rparr>)
         | Inr (privateKey, publicKey) \<Rightarrow>
            (let w = w\<lparr>draws := Suc (draws w)\<rparr>;
                 w = store_set ''privateKey'' (JStr privateKey) w;
                 w = store_set ''publicKey'' (JStr publicKey) w;
                 w = emit (SpinnerText ''Registering installation with Bunq...'') w;
                 (r, w) = bunqPost P ''/installation''
                            (JObj [(''client_public_key'', JStr publicKey)]) JNull w
             in case thenE r parse_installation of
                  Inl e \<Rightarrow> (Inl e, w)
                | Inr (installationToken, serverPublicKey) \<Rightarrow>
                    if \<not> truthy installationToken
                    then (Inl (Error ''Failed to obtain installation token from response.''), w)
                    else (let w = store_set ''installationToken'' installationToken w;
                              w = (if truthy serverPublicKey
                                   then store_set ''serverPublicKey'' serverPublicKey w else w)
                          in (Inr installationToken, w))))"

text \<open>Step 3: the device is registered with the installation token.\<close>

definition setup_device :: "platform \<Rightarrow> (string \<Rightarrow> jsval) \<Rightarrow> jsval \<Rightarrow> world \<Rightarrow> (js_error + jsval) \<times> world" where
  "setup_device P config installationToken w0 =
     (let w = emit (SpinnerText ''Registering device server...'') w0
      in bunqPost P ''/device-server''
           (JObj [(''description'', JStr ''bunq-cli''),
                  (''secret'', config ''apiKey''),
                  (''permitted_ips'', JArr [JStr ''*''])])
           installationToken w)"

text \<open>
  Step 4, and the body of \<^verbatim>\<open>refreshSession\<close>: the session is created with the
  installation token; the session token and the user's identifier are stored. The two
  functions differ in the text of the error for a missing session token. The value is
  the user's identifier.
\<close>

definition create_session ::
  "platform \<Rightarrow> (string \<Rightarrow> jsval) \<Rightarrow> jsval \<Rightarrow> string \<Rightarrow> world \<Rightarrow> (js_error + jsval) \<times> world" where
  "create_session P config installationToken failure w0 =
     (let (r, w) = bunqPost P ''/session-server''
                     (JObj [(''secret'', config ''apiKey'')]) installationToken w0
      in case thenE r (parse_session P) of
           Inl e \<Rightarrow> (Inl e, w)
         | Inr (sessionToken, userId) \<Rightarrow>
             if \<not> truthy sessionToken then (Inl (Error failure), w)
             else (let w = store_set ''sessionToken'' sessionToken w;
                       w = (if truthy userId then store_set ''userId'' userId w else w)
                   in (Inr userId, w)))"

text \<open>The \<^verbatim>\<open>try\<close> block of \<^verbatim>\<open>setupAuth\<close>.\<close>

definition setupAuth_try :: "platform \<Rightarrow> (string \<Rightarrow> jsval) \<Rightarrow> world \<Rightarrow> (js_error + unit) \<times> world" where
  "setupAuth_try P config w0 =
     (case setup_installation P w0 of
        (Inl e, w) \<Rightarrow> (Inl e, w)
      | (Inr installationToken, w) \<Rightarrow>
         (case setup_device P config installationToken w of
            (Inl e, w) \<Rightarrow> (Inl e, w)
          | (Inr _, w) \<Rightarrow>
             (case create_session P config installationToken
                     ''Failed to obtain session token from response.''
                     (emit (SpinnerText ''Creating session...'') w) of
                (Inl e, w) \<Rightarrow> (Inl e, w)
              | (Inr userId, w) \<Rightarrow>
                 (let w = emit (SpinnerSucceed ''Authentication successful!'') w;
                      w = emit (Info (''Environment: '' @
                            (if truthy (config ''sandbox'') then ''sandbox'' else ''production''))) w;
                      w = (if truthy userId then emit (Info (''User ID: '' @ js_String P userId)) w else w);
                      w = emit (Info ''Session token saved. You can now use all bunq commands.'') w
                  in (Inr (), w)))))"

definition setupAuth :: "platform \<Rightarrow> world \<Rightarrow> outcome \<times> world" where
  "setupAuth P w0 =
     (let config = getConfig (store w0)
      in if \<not> truthy (config ''apiKey'')
         then (Exited 1, emit (ErrorLine ''No API key configured. Run: bunq config set --api-key <key>'') w0)
         else (case setupAuth_try P config (emit (SpinnerStart ''Setting up Bunq authentication...'') w0) of
                 (Inr _, w) \<Rightarrow> (Returned, w)
               | (Inl err, w) \<Rightarrow> handleError P err (emit (SpinnerFail ''Authentication failed.'') w)))"

definition refreshSession :: "platform \<Rightarrow> world \<Rightarrow> outcome \<times> world" where
  "refreshSession P w0 =
     (let config = getConfig (store w0)
      in if \<not> truthy (config ''apiKey'')
         then (Exited 1, emit (ErrorLine ''No API key configured. Run: bunq config set --api-key <key>'') w0)
         else if \<not> truthy (config ''installationToken'')
         then setupAuth P (emit (Info ''No installation found. Running full setup...'') w0)
         else (case create_session P config (config ''installationToken'')
                      ''Failed to obtain session token.''
                      (emit (SpinnerStart ''Refreshing session...'') w0) of
                 (Inr _, w) \<Rightarrow> (Returned, emit (SpinnerSucceed ''Session refreshed successfully.'') w)
               | (Inl err, w) \<Rightarrow> handleError P err (emit (SpinnerFail ''Session refresh failed.'') w)))"

section \<open>commands/config.js\<close>

text \<open>The options of \<^verbatim>\<open>config set\<close>: \<^verbatim>\<open>--api-key <key>\<close>, \<^verbatim>\<open>--sandbox\<close>, \<^verbatim>\<open>--production\<close>.\<close>

record opts =
  opt_apiKey :: "string option"
  opt_sandbox :: bool
  opt_production :: bool

text \<open>\<^verbatim>\<open>opts.apiKey\<close> is truthy when the option was given with a key that is not empty.\<close>

definition opt_given :: "string option \<Rightarrow> bool" where
  "opt_given k = (case k of None \<Rightarrow> False | Some s \<Rightarrow> s \<noteq> [])"

definition set_apiKey :: "string \<Rightarrow> world \<Rightarrow> world" where
  "set_apiKey key w0 =
     (let w = store_set ''apiKey'' (JStr key) w0;
          w = store_delete ''sessionToken'' w;
          w = store_delete ''installationToken'' w;
          w = store_delete ''privateKey'' w;
          w = store_delete ''publicKey'' w;
          w = store_delete ''serverPublicKey'' w;
          w = store_delete ''userId'' w
      in emit (Success (''API key saved. Run '' @ [CHR 0x27] @ ''bunq auth setup''
                         @ [CHR 0x27] @ '' to complete authentication.'')) w)"

definition config_set :: "opts \<Rightarrow> world \<Rightarrow> world" where
  "config_set opts w0 =
     (let w = (case opt_apiKey opts of
                 Some key \<Rightarrow> if key \<noteq> [] then set_apiKey key w0 else w0
               | None \<Rightarrow> w0);
          w = (if opt_sandbox opts
               then emit (Success ''Switched to sandbox environment.'') (store_set ''sandbox'' (JBool True) w)
               else w);
          w = (if opt_production opts
               then emit (Success ''Switched to production environment.'') (store_set ''sandbox'' (JBool False) w)
               else w)
      in if \<not> opt_given (opt_apiKey opts) \<and> \<not> opt_sandbox opts \<and> \<not> opt_production opts
         then emit (Info ''No options provided. Use --api-key <key>, --sandbox, or --production.'') w
         else w)"

definition config_clear :: "world \<Rightarrow> world" where
  "config_clear w = emit (Success ''Configuration cleared.'') (w\<lparr>store := Map.empty\<rparr>)"

section \<open>The requests of the handshake\<close>

text \<open>
  The three requests that \<^verbatim>\<open>setupAuth\<close> and \<^verbatim>\<open>refreshSession\<close> hand to \<^verbatim>\<open>bunqPost\<close>,
  named so that the theorems can speak about them. The installation request is built
  after the new key pair is in the store and one random draw is spent.
\<close>

definition session_request :: "platform \<Rightarrow> (string \<Rightarrow> jsval) \<Rightarrow> jsval \<Rightarrow> world \<Rightarrow> request" where
  "session_request P c t w =
     build_request P ''POST'' ''/session-server'' (JObj [(''secret'', c ''apiKey'')]) (default_null t) w"

definition device_request :: "platform \<Rightarrow> (string \<Rightarrow> jsval) \<Rightarrow> jsval \<Rightarrow> world \<Rightarrow> request" where
  "device_request P c t w =
     build_request P ''POST'' ''/device-server''
       (JObj [(''description'', JStr ''bunq-cli''), (''secret'', c ''apiKey''),
              (''permitted_ips'', JArr [JStr ''*''])]) (default_null t) w"

definition installation_request :: "platform \<Rightarrow> string \<Rightarrow> string \<Rightarrow> world \<Rightarrow> request" where
  "installation_request P priv pub w =
     build_request P ''POST'' ''/installation'' (JObj [(''client_public_key'', JStr pub)]) JNull
       (w\<lparr>store := (store w)(''privateKey'' \<mapsto> JStr priv, ''publicKey'' \<mapsto> JStr pub),
          draws := Suc (draws w)\<rparr>)"

section \<open>Test fixtures\<close>

text \<open>
  A remote end with canned answers, chosen by the endpoint of the request, and a
  platform around it: fixed key pairs, a stand-in for the signature and for
  \<^verbatim>\<open>JSON.stringify\<close>. The theorems below hold for every platform; the fixtures give the
  concrete runs.
\<close>

definition canned_axios ::
  "js_error + jsval \<Rightarrow> js_error + jsval \<Rightarrow> js_error + jsval \<Rightarrow> request list \<Rightarrow> request \<Rightarrow> js_error + jsval" where
  "canned_axios inst dev sess tr req =
     (if suffix ''/installation'' (req_url req) then inst
      else if suffix ''/device-server'' (req_url req) then dev
      else if suffix ''/session-server'' (req_url req) then sess
      else Inl (Rejected (Some (404, JNull)) ''Request failed with status code 404''))"

definition demo_render :: "jsval \<Rightarrow> string" where
  "demo_render v = (case v of JNull \<Rightarrow> ''null'' | JStr s \<Rightarrow> s | _ \<Rightarrow> ''[object]'')"

definition demo_platform ::
  "(nat \<Rightarrow> js_error + (string \<times> string)) \<Rightarrow> (request list \<Rightarrow> request \<Rightarrow> js_error + jsval) \<Rightarrow> platform" where
  "demo_platform keys ax =
     \<lparr>stringify = (\<lambda>v. ''json:'' @ demo_render v),
      upper_unicode = (\<lambda>s. s),
      exponent_String = (\<lambda>n. ''1e+21''),
      rsa_sha256 = (\<lambda>d k. if k = JStr ''PRIV'' then Some ''c2lnbmVk'' else None),
      generateKeyPairSync = keys,
      randomUUID = (\<lambda>n. ''uuid-'' @ dec_nat n),
      getBaseUrl = (\<lambda>c. if truthy (c ''sandbox'') then ''https://public-api.sandbox.bunq.com/v1''
                         else ''https://api.bunq.com/v1''),
      axios = ax\<rparr>"

definition token_entry :: "string \<Rightarrow> jsval" where
  "token_entry t = JObj [(''Token'', JObj [(''token'', JStr t)])]"

definition envelope :: "jsval list \<Rightarrow> jsval" where
  "envelope items = JObj [(''Response'', JArr items)]"

text \<open>
  The canned run of the specification: the installation answers with the token
  \<^verbatim>\<open>T1\<close>, the device registration with an envelope without a token, the session
  creation with the token \<^verbatim>\<open>T2\<close> and the person 42.
\<close>

definition happy_platform :: platform where
  "happy_platform =
     demo_platform (\<lambda>n. Inr (''PRIV'', ''PUB''))
       (canned_axios
          (Inr (envelope [token_entry ''T1'']))
          (Inr (envelope []))
          (Inr (envelope [token_entry ''T2'', JObj [(''UserPerson'', JObj [(''id'', JNum 42)])]])))"

definition person_entry :: "int \<Rightarrow> jsval" where
  "person_entry i = JObj [(''UserPerson'', JObj [(''id'', JNum i)])]"

definition server_key_entry :: "string \<Rightarrow> jsval" where
  "server_key_entry k = JObj [(''ServerPublicKey'', JObj [(''server_public_key'', JStr k)])]"

definition abc_platform :: platform where
  "abc_platform =
     demo_platform (\<lambda>n. Inr (''PRIV'', ''PUB''))
       (canned_axios
          (Inr (envelope [token_entry ''abc'', server_key_entry ''pk'']))
          (Inr (envelope []))
          (Inr (envelope [token_entry ''T2'', person_entry 42])))"

definition rejecting_platform :: "string \<Rightarrow> platform" where
  "rejecting_platform m =
     demo_platform (\<lambda>n. Inr (''PRIV'', ''PUB''))
       (canned_axios
          (Inl (Rejected (Some (401, JNull)) m))
          (Inr (envelope []))
          (Inr (envelope [token_entry ''T2'', person_entry 42])))"

definition fresh_keys_platform :: platform where
  "fresh_keys_platform =
     demo_platform (\<lambda>n. Inr (''PRIV'' @ dec_nat n, ''PUB'' @ dec_nat n))
       (canned_axios
          (Inr (envelope [token_entry ''T1'']))
          (Inr (envelope []))
          (Inr (envelope [token_entry ''T2'', person_entry 42])))"

definition world_of :: "(string \<times> jsval) list \<Rightarrow> world" where
  "world_of kvs = \<lparr>store = map_of kvs, trace = [], out = [], draws = 0\<rparr>"

section \<open>Basic facts\<close>

lemma world_simps [simp]:
  "store (emit c w) = store w"
  "trace (emit c w) = trace w"
  "draws (emit c w) = draws w"
  "out (emit c w) = out w @ [c]"
  "store (store_set k v w) = (store w)(k \<mapsto> v)"
  "trace (store_set k v w) = trace w"
  "draws (store_set k v w) = draws w"
  "out (store_set k v w) = out w"
  "store (store_delete k w) = (store w)(k := None)"
  "trace (store_delete k w) = trace w"
  "draws (store_delete k w) = draws w"
  "out (store_delete k w) = out w"
  by (simp_all add: emit_def store_set_def store_delete_def)

lemma truthy_default_null [simp]: "truthy (default_null v) = truthy v"
  by (cases v) (simp_all add: default_null_def)

lemma default_null_truthy: "truthy v \<Longrightarrow> default_null v = v"
  by (cases v) (simp_all add: default_null_def)

lemma default_null_idem [simp]: "default_null (default_null v) = default_null v"
  by (simp add: default_null_def)

lemma bunqRequest_snd [simp]:
  "snd (bunqRequest P m e b t w) =
     w\<lparr>trace := trace w @ [build_request P m e (default_null b) (default_null t) w],
       draws := Suc (draws w)\<rparr>"
  by (simp add: bunqRequest_def Let_def)

lemma bunqRequest_fst [simp]:
  "fst (bunqRequest P m e b t w) =
     axios P (trace w) (build_request P m e (default_null b) (default_null t) w)"
  by (simp add: bunqRequest_def Let_def)

lemma build_request_basic [simp]:
  "req_method (build_request P m e b t w) = m"
  "req_url (build_request P m e b t w) = getBaseUrl P (getConfig (store w)) @ e"
  "req_data (build_request P m e b t w) = b"
  by (simp_all add: build_request_def Let_def)

lemma auth_header_build:
  "map_of (req_headers (build_request P m e b t w)) ''X-Bunq-Client-Authentication'' =
     (let a = js_or (js_or t (getConfig (store w) ''sessionToken''))
                (getConfig (store w) ''installationToken'')
      in if truthy a then Some a else None)"
  by (simp add: build_request_def Let_def base_headers_def)

lemma sig_header_build:
  "map_of (req_headers (build_request P m e b t w)) ''X-Bunq-Client-Signature'' =
     (case crypto_sign P (dataToSign P m e b) (getConfig (store w) ''privateKey'') of
        None \<Rightarrow> None
      | Some s \<Rightarrow> if s \<noteq> [] then Some (JStr s) else None)"
  by (auto simp add: build_request_def Let_def base_headers_def signRequest_def crypto_sign_def
      split: option.splits)

text \<open>Upper case on ASCII.\<close>

lemma upper_char_lower:
  "c \<in> set ''abcdefghijklmnopqrstuvwxyz'' \<Longrightarrow> (of_char (upper_char c) :: nat) + 32 = of_char c"
  by (auto simp add: upper_char_def)

lemma upper_char_other:
  "c \<notin> set ''abcdefghijklmnopqrstuvwxyz'' \<Longrightarrow> upper_char c = c"
  by (auto simp add: upper_char_def)

lemma toUpperCase_ascii: "ascii s \<Longrightarrow> toUpperCase P s = map upper_char s"
  by (simp add: toUpperCase_def)

lemma toUpperCase_methods:
  "toUpperCase P ''GET'' = ''GET''" "toUpperCase P ''POST'' = ''POST''"
  "toUpperCase P ''PUT'' = ''PUT''" "toUpperCase P ''DELETE'' = ''DELETE''"
  by (simp_all add: toUpperCase_def ascii_def upper_char_def)

section \<open>The shape of a run\<close>

text \<open>
  Each step of the handshake is taken apart into the ways it can end: what was sent,
  what the remote end answered, what the step returned and what it left in the store.
  The case rules for the steps are then put together into one for \<^verbatim>\<open>setupAuth\<close>.
\<close>

lemma handleError_facts [simp]:
  "fst (handleError P e w) = Exited 1"
  "store (snd (handleError P e w)) = store w"
  "trace (snd (handleError P e w)) = trace w"
  "draws (snd (handleError P e w)) = draws w"
  by (simp_all add: handleError_def split: option.splits prod.splits)

lemma default_null_simps [simp]:
  "default_null JNull = JNull" "default_null (JObj kvs) = JObj kvs"
  "default_null (JStr s) = JStr s" "default_null JUndefined = JNull"
  by (simp_all add: default_null_def)

lemma build_request_cong:
  "store w = store w' \<Longrightarrow> draws w = draws w' \<Longrightarrow>
   build_request P m e b t w = build_request P m e b t w'"
  by (simp add: build_request_def base_headers_def)

lemma bunqPost_eq:
  "bunqPost P e b t w =
     (axios P (trace w) (build_request P ''POST'' e (default_null b) (default_null t) w),
      w\<lparr>trace := trace w @ [build_request P ''POST'' e (default_null b) (default_null t) w],
        draws := Suc (draws w)\<rparr>)"
  by (simp add: bunqPost_def bunqRequest_def Let_def)

lemma create_session_cases:
  assumes "create_session P c t f w = (r, w')"
  obtains
    (rejected) e where
      "trace w' = trace w @ [session_request P c t w]"
      "axios P (trace w) (session_request P c t w) = Inl e" "r = Inl e" "store w' = store w"
  | (malformed) resp e where
      "trace w' = trace w @ [session_request P c t w]"
      "axios P (trace w) (session_request P c t w) = Inr resp"
      "parse_session P resp = Inl e" "r = Inl e" "store w' = store w"
  | (no_token) resp tok uid where
      "trace w' = trace w @ [session_request P c t w]"
      "axios P (trace w) (session_request P c t w) = Inr resp"
      "parse_session P resp = Inr (tok, uid)" "\<not> truthy tok" "r = Inl (Error f)" "store w' = store w"
  | (ok) resp tok uid where
      "trace w' = trace w @ [session_request P c t w]"
      "axios P (trace w) (session_request P c t w) = Inr resp"
      "parse_session P resp = Inr (tok, uid)" "truthy tok" "r = Inr uid"
      "store w' = (if truthy uid then (store w)(''sessionToken'' \<mapsto> tok, ''userId'' \<mapsto> uid)
                   else (store w)(''sessionToken'' \<mapsto> tok))"
  using assms
  by (auto simp add: create_session_def bunqPost_eq thenE_def Let_def session_request_def
      split: sum.splits prod.splits if_splits)

lemma setup_device_eq:
  "setup_device P c t w =
     (axios P (trace w) (device_request P c t w),
      (emit (SpinnerText ''Registering device server...'') w)
        \<lparr>trace := trace w @ [device_request P c t w], draws := Suc (draws w)\<rparr>)"
  by (simp add: setup_device_def bunqPost_eq device_request_def Let_def build_request_def base_headers_def)

lemma installation_request_eq:
  "build_request P ''POST'' ''/installation'' (JObj [(''client_public_key'', JStr pub)]) JNull
     (emit c2 (store_set ''publicKey'' (JStr pub) (store_set ''privateKey'' (JStr priv)
        ((emit c1 w)\<lparr>draws := Suc (draws w)\<rparr>))))
   = installation_request P priv pub w"
  unfolding installation_request_def
  by (rule build_request_cong) (simp_all add: emit_def store_set_def)

lemma setup_installation_cases:
  assumes "setup_installation P w = (r, w')"
  obtains
    (keygen) e where
      "generateKeyPairSync P (draws w) = Inl e" "r = Inl e" "trace w' = trace w" "store w' = store w"
  | (rejected) priv pub e where
      "generateKeyPairSync P (draws w) = Inr (priv, pub)"
      "trace w' = trace w @ [installation_request P priv pub w]"
      "axios P (trace w) (installation_request P priv pub w) = Inl e" "r = Inl e"
      "store w' = (store w)(''privateKey'' \<mapsto> JStr priv, ''publicKey'' \<mapsto> JStr pub)"
  | (malformed) priv pub resp e where
      "generateKeyPairSync P (draws w) = Inr (priv, pub)"
      "trace w' = trace w @ [installation_request P priv pub w]"
      "axios P (trace w) (installation_request P priv pub w) = Inr resp"
      "parse_installation resp = Inl e" "r = Inl e"
      "store w' = (store w)(''privateKey'' \<mapsto> JStr priv, ''publicKey'' \<mapsto> JStr pub)"
  | (no_token) priv pub resp tok spk where
      "generateKeyPairSync P (draws w) = Inr (priv, pub)"
      "trace w' = trace w @ [installation_request P priv pub w]"
      "axios P (trace w) (installation_request P priv pub w) = Inr resp"
      "parse_installation resp = Inr (tok, spk)" "\<not> truthy tok"
      "r = Inl (Error ''Failed to obtain installation token from response.'')"
      "store w' = (store w)(''privateKey'' \<mapsto> JStr priv, ''publicKey'' \<mapsto> JStr pub)"
  | (ok) priv pub resp tok spk where
      "generateKeyPairSync P (draws w) = Inr (priv, pub)"
      "trace w' = trace w @ [installation_request P priv pub w]"
      "axios P (trace w) (installation_request P priv pub w) = Inr resp"
      "parse_installation resp = Inr (tok, spk)" "truthy tok" "r = Inr tok"
      "store w' = (if truthy spk
          then (store w)(''privateKey'' \<mapsto> JStr priv, ''publicKey'' \<mapsto> JStr pub,
                 ''installationToken'' \<mapsto> tok, ''serverPublicKey'' \<mapsto> spk)
          else (store w)(''privateKey'' \<mapsto> JStr priv, ''publicKey'' \<mapsto> JStr pub,
                 ''installationToken'' \<mapsto> tok))"
  using assms
  by (auto simp add: setup_installation_def bunqPost_eq thenE_def Let_def installation_request_eq
      split: sum.splits prod.splits if_splits)


lemma installation_request_emit [simp]:
  "installation_request P priv pub (emit c w) = installation_request P priv pub w"
  unfolding installation_request_def
  by (rule build_request_cong) (simp_all add: emit_def)

lemma session_request_emit [simp]:
  "session_request P c t (emit x w) = session_request P c t w"
  unfolding session_request_def
  by (rule build_request_cong) (simp_all add: emit_def)

lemma setupAuth_cases:
  assumes key: "truthy (getConfig (store w) ''apiKey'')"
  obtains
    (keygen) e wf where
      "generateKeyPairSync P (draws w) = Inl e"
      "setupAuth P w = handleError P e wf" "trace wf = trace w" "store wf = store w"
  | (inst_failed) priv pub e wf where
      "generateKeyPairSync P (draws w) = Inr (priv, pub)"
      "setupAuth P w = handleError P e wf"
      "trace wf = trace w @ [installation_request P priv pub w]"
      "store wf = (store w)(''privateKey'' \<mapsto> JStr priv, ''publicKey'' \<mapsto> JStr pub)"
      "axios P (trace w) (installation_request P priv pub w) = Inl e
       \<or> (\<exists>resp. axios P (trace w) (installation_request P priv pub w) = Inr resp
            \<and> (parse_installation resp = Inl e
                \<or> (\<exists>tok spk. parse_installation resp = Inr (tok, spk) \<and> \<not> truthy tok
                      \<and> e = Error ''Failed to obtain installation token from response.'')))"
  | (dev_failed) priv pub resp tok spk w2 e wf where
      "generateKeyPairSync P (draws w) = Inr (priv, pub)"
      "axios P (trace w) (installation_request P priv pub w) = Inr resp"
      "parse_installation resp = Inr (tok, spk)" "truthy tok"
      "store w2 = (if truthy spk
          then (store w)(''privateKey'' \<mapsto> JStr priv, ''publicKey'' \<mapsto> JStr pub,
                 ''installationToken'' \<mapsto> tok, ''serverPublicKey'' \<mapsto> spk)
          else (store w)(''privateKey'' \<mapsto> JStr priv, ''publicKey'' \<mapsto> JStr pub,
                 ''installationToken'' \<mapsto> tok))"
      "axios P (trace w @ [installation_request P priv pub w])
         (device_request P (getConfig (store w)) tok w2) = Inl e"
      "setupAuth P w = handleError P e wf"
      "trace wf = trace w @ [installation_request P priv pub w,
                             device_request P (getConfig (store w)) tok w2]"
      "store wf = store w2"
  | (sess_failed) priv pub resp tok spk w2 d w3 e wf where
      "generateKeyPairSync P (draws w) = Inr (priv, pub)"
      "axios P (trace w) (installation_request P priv pub w) = Inr resp"
      "parse_installation resp = Inr (tok, spk)" "truthy tok"
      "store w2 = (if truthy spk
          then (store w)(''privateKey'' \<mapsto> JStr priv, ''publicKey'' \<mapsto> JStr pub,
                 ''installationToken'' \<mapsto> tok, ''serverPublicKey'' \<mapsto> spk)
          else (store w)(''privateKey'' \<mapsto> JStr priv, ''publicKey'' \<mapsto> JStr pub,
                 ''installationToken'' \<mapsto> tok))"
      "axios P (trace w @ [installation_request P priv pub w])
         (device_request P (getConfig (store w)) tok w2) = Inr d"
      "store w3 = store w2"
      "setupAuth P w = handleError P e wf"
      "trace wf = trace w @ [installation_request P priv pub w,
                             device_request P (getConfig (store w)) tok w2,
                             session_request P (getConfig (store w)) tok w3]"
      "store wf = store w2"
      "axios P (trace w @ [installation_request P priv pub w,
                           device_request P (getConfig (store w)) tok w2])
         (session_request P (getConfig (store w)) tok w3) = Inl e
       \<or> (\<exists>resp3. axios P (trace w @ [installation_request P priv pub w,
                                       device_request P (getConfig (store w)) tok w2])
                     (session_request P (getConfig (store w)) tok w3) = Inr resp3
            \<and> (parse_session P resp3 = Inl e
                \<or> (\<exists>stok uid. parse_session P resp3 = Inr (stok, uid) \<and> \<not> truthy stok
                      \<and> e = Error ''Failed to obtain session token from response.'')))"
  | (ok) priv pub resp tok spk w2 d w3 resp3 stok uid wf where
      "generateKeyPairSync P (draws w) = Inr (priv, pub)"
      "axios P (trace w) (installation_request P priv pub w) = Inr resp"
      "parse_installation resp = Inr (tok, spk)" "truthy tok"
      "store w2 = (if truthy spk
          then (store w)(''privateKey'' \<mapsto> JStr priv, ''publicKey'' \<mapsto> JStr pub,
                 ''installationToken'' \<mapsto> tok, ''serverPublicKey'' \<mapsto> spk)
          else (store w)(''privateKey'' \<mapsto> JStr priv, ''publicKey'' \<mapsto> JStr pub,
                 ''installationToken'' \<mapsto> tok))"
      "axios P (trace w @ [installation_request P priv pub w])
         (device_request P (getConfig (store w)) tok w2) = Inr d"
      "store w3 = store w2"
      "axios P (trace w @ [installation_request P priv pub w,
                           device_request P (getConfig (store w)) tok w2])
         (session_request P (getConfig (store w)) tok w3) = Inr resp3"
      "parse_session P resp3 = Inr (stok, uid)" "truthy stok"
      "setupAuth P w = (Returned, wf)"
      "trace wf = trace w @ [installation_request P priv pub w,
                             device_request P (getConfig (store w)) tok w2,
                             session_request P (getConfig (store w)) tok w3]"
      "store wf = (if truthy uid then (store w2)(''sessionToken'' \<mapsto> stok, ''userId'' \<mapsto> uid)
                   else (store w2)(''sessionToken'' \<mapsto> stok))"
proof -
  let ?c = "getConfig (store w)"
  let ?w0 = "emit (SpinnerStart ''Setting up Bunq authentication...'') w"
  let ?fail = "emit (SpinnerFail ''Authentication failed.'')"
  obtain r1 w2 where s1: "setup_installation P ?w0 = (r1, w2)"
    by (cases "setup_installation P ?w0")
  have unfold_fail: "setupAuth P w = handleError P e (?fail w')"
    if "setupAuth_try P ?c ?w0 = (Inl e, w')" for e w'
    using key that by (simp add: setupAuth_def Let_def)
  from s1 show thesis
  proof (cases rule: setup_installation_cases)
    case (keygen e)
    have "setupAuth_try P ?c ?w0 = (Inl e, w2)"
      using s1 keygen by (simp add: setupAuth_try_def)
    then have "setupAuth P w = handleError P e (?fail w2)" by (rule unfold_fail)
    with keygen show thesis
      by (intro that(1) [of e "?fail w2"]) simp_all
  next
    case (rejected priv pub e)
    have "setupAuth_try P ?c ?w0 = (Inl e, w2)"
      using s1 rejected by (simp add: setupAuth_try_def)
    then have "setupAuth P w = handleError P e (?fail w2)" by (rule unfold_fail)
    with rejected show thesis
      by (intro that(2) [of priv pub e "?fail w2"]) simp_all
  next
    case (malformed priv pub resp e)
    have "setupAuth_try P ?c ?w0 = (Inl e, w2)"
      using s1 malformed by (simp add: setupAuth_try_def)
    then have "setupAuth P w = handleError P e (?fail w2)" by (rule unfold_fail)
    with malformed show thesis
      by (intro that(2) [of priv pub e "?fail w2"]) simp_all
  next
    case (no_token priv pub resp tok spk)
    have "setupAuth_try P ?c ?w0 =
        (Inl (Error ''Failed to obtain installation token from response.''), w2)"
      using s1 no_token by (simp add: setupAuth_try_def)
    then have "setupAuth P w =
        handleError P (Error ''Failed to obtain installation token from response.'') (?fail w2)"
      by (rule unfold_fail)
    with no_token show thesis
      by (intro that(2) [of priv pub
            "Error ''Failed to obtain installation token from response.''" "?fail w2"]) simp_all
  next
    case (ok priv pub resp tok spk)
    note inst = ok
    let ?r1 = "installation_request P priv pub w"
    let ?r2 = "device_request P ?c tok w2"
    let ?w3 = "(emit (SpinnerText ''Registering device server...'') w2)
                 \<lparr>trace := trace w2 @ [?r2], draws := Suc (draws w2)\<rparr>"
    have tr2: "trace w2 = trace w @ [?r1]" using inst by simp
    have st2: "store w2 = (if truthy spk
          then (store w)(''privateKey'' \<mapsto> JStr priv, ''publicKey'' \<mapsto> JStr pub,
                 ''installationToken'' \<mapsto> tok, ''serverPublicKey'' \<mapsto> spk)
          else (store w)(''privateKey'' \<mapsto> JStr priv, ''publicKey'' \<mapsto> JStr pub,
                 ''installationToken'' \<mapsto> tok))"
      using inst by simp
    have gen: "generateKeyPairSync P (draws w) = Inr (priv, pub)" using inst by simp
    have a1: "axios P (trace w) ?r1 = Inr resp" using inst by simp
    have dev: "setup_device P ?c tok w2 = (axios P (trace w @ [?r1]) ?r2, ?w3)"
      by (simp add: setup_device_eq tr2)
    show thesis
    proof (cases "axios P (trace w @ [?r1]) ?r2")
      case (Inl e)
      have "setupAuth_try P ?c ?w0 = (Inl e, ?w3)"
        using s1 inst(6) dev Inl by (simp add: setupAuth_try_def)
      then have "setupAuth P w = handleError P e (?fail ?w3)" by (rule unfold_fail)
      then show thesis
        using gen a1 inst(4,5) st2 Inl tr2
        by (intro that(3) [of priv pub resp tok spk w2 e "?fail ?w3"]) simp_all
    next
      case (Inr d)
      let ?w3' = "emit (SpinnerText ''Creating session...'') ?w3"
      let ?r3 = "session_request P ?c tok ?w3"
      obtain r3 w4 where s3: "create_session P ?c tok
            ''Failed to obtain session token from response.'' ?w3' = (r3, w4)"
        by (cases "create_session P ?c tok ''Failed to obtain session token from response.'' ?w3'")
      have try_eq: "setupAuth_try P ?c ?w0 =
          (case (r3, w4) of
             (Inl e, w) \<Rightarrow> (Inl e, w)
           | (Inr userId, w) \<Rightarrow>
               (let w = emit (SpinnerSucceed ''Authentication successful!'') w;
                    w = emit (Info (''Environment: '' @
                          (if truthy (?c ''sandbox'') then ''sandbox'' else ''production''))) w;
                    w = (if truthy userId then emit (Info (''User ID: '' @ js_String P userId)) w else w);
                    w = emit (Info ''Session token saved. You can now use all bunq commands.'') w
                in (Inr (), w)))"
        using s1 inst(6) dev Inr s3 by (simp add: setupAuth_try_def)
      have st3: "store ?w3 = store w2" by simp
      have tr3: "trace ?w3' = trace w @ [?r1, ?r2]" using tr2 by simp
      from s3 show thesis
      proof (cases rule: create_session_cases)
        case (rejected e)
        have "setupAuth_try P ?c ?w0 = (Inl e, w4)" using try_eq rejected by simp
        then have "setupAuth P w = handleError P e (?fail w4)" by (rule unfold_fail)
        then show thesis
          using gen a1 inst(4,5) st2 Inr st3 rejected tr3
          by (intro that(4) [of priv pub resp tok spk w2 d ?w3 e "?fail w4"]) simp_all
      next
        case (malformed resp3 e)
        have "setupAuth_try P ?c ?w0 = (Inl e, w4)" using try_eq malformed by simp
        then have "setupAuth P w = handleError P e (?fail w4)" by (rule unfold_fail)
        then show thesis
          using gen a1 inst(4,5) st2 Inr st3 malformed tr3
          by (intro that(4) [of priv pub resp tok spk w2 d ?w3 e "?fail w4"]) simp_all
      next
        case (no_token resp3 stok uid)
        have "setupAuth_try P ?c ?w0 =
            (Inl (Error ''Failed to obtain session token from response.''), w4)"
          using try_eq no_token by simp
        then have "setupAuth P w =
            handleError P (Error ''Failed to obtain session token from response.'') (?fail w4)"
          by (rule unfold_fail)
        then show thesis
          using gen a1 inst(4,5) st2 Inr st3 no_token tr3
          by (intro that(4) [of priv pub resp tok spk w2 d ?w3
                "Error ''Failed to obtain session token from response.''" "?fail w4"]) simp_all
      next
        case (ok resp3 stok uid)
        note sess = ok
        let ?wf = "emit (Info ''Session token saved. You can now use all bunq commands.'')
            ((if truthy uid then emit (Info (''User ID: '' @ js_String P uid)) else id)
              (emit (Info (''Environment: '' @
                  (if truthy (?c ''sandbox'') then ''sandbox'' else ''production'')))
                (emit (SpinnerSucceed ''Authentication successful!'') w4)))"
        have "setupAuth_try P ?c ?w0 = (Inr (), ?wf)"
          using try_eq sess by (simp add: Let_def)
        then have "setupAuth P w = (Returned, ?wf)"
          using key by (simp add: setupAuth_def Let_def)
        then show thesis
          using gen a1 inst(4,5) st2 Inr st3 sess tr3
          by (intro that(5) [of priv pub resp tok spk w2 d ?w3 resp3 stok uid ?wf]) simp_all
      qed
    qed
  qed
qed

text \<open>The definitions that a concrete run unfolds.\<close>

lemmas run_defs = setupAuth_def setupAuth_try_def setup_installation_def setup_device_def
  create_session_def refreshSession_def bunqPost_def bunqRequest_def build_request_def base_headers_def
  parse_installation_def parse_session_def thenE_def handleError_def err_response_def err_message_def
  getConfig_def js_or_def signRequest_def crypto_sign_def dataToSign_def num_String_def
  emit_def store_set_def default_null_def

lemmas fixture_defs = happy_platform_def demo_platform_def demo_render_def canned_axios_def envelope_def
  token_entry_def
  world_of_def suffix_to_prefix

text \<open>Where a request stands among the requests that a run appended to the trace.\<close>

lemma split_trace:
  "tr @ req # rest = base @ new \<Longrightarrow> length base \<le> length tr \<Longrightarrow>
   \<exists>pre. tr = base @ pre \<and> new = pre @ req # rest"
  by (auto simp add: append_eq_append_conv2 append_eq_Cons_conv)

lemma suffix_last: "suffix xs ys \<Longrightarrow> xs \<noteq> [] \<Longrightarrow> last ys = last xs"
  by (auto simp add: suffix_def)

lemma request_urls [simp]:
  "req_url (installation_request P priv pub w) =
     getBaseUrl P (getConfig ((store w)(''privateKey'' \<mapsto> JStr priv, ''publicKey'' \<mapsto> JStr pub)))
       @ ''/installation''"
  "req_url (device_request P c t w) = getBaseUrl P (getConfig (store w)) @ ''/device-server''"
  "req_url (session_request P c t w) = getBaseUrl P (getConfig (store w)) @ ''/session-server''"
  by (simp_all add: installation_request_def device_request_def session_request_def)

lemma request_methods [simp]:
  "req_method (installation_request P priv pub w) = ''POST''"
  "req_method (device_request P c t w) = ''POST''"
  "req_method (session_request P c t w) = ''POST''"
  by (simp_all add: installation_request_def device_request_def session_request_def)

lemma request_auth:
  "truthy t \<Longrightarrow> map_of (req_headers (device_request P c t w)) ''X-Bunq-Client-Authentication'' = Some t"
  "truthy t \<Longrightarrow> map_of (req_headers (session_request P c t w)) ''X-Bunq-Client-Authentication'' = Some t"
  by (simp_all add: device_request_def session_request_def auth_header_build js_or_def Let_def
      default_null_truthy)

lemma session_request_data [simp]:
  "req_data (session_request P c t w) = JObj [(''secret'', c ''apiKey'')]"
  by (simp add: session_request_def)

lemma installation_not_later:
  "\<not> suffix ''/device-server'' (b @ ''/installation'')"
  "\<not> suffix ''/session-server'' (b @ ''/installation'')"
  by (auto dest: suffix_last)

text \<open>Runs of \<^verbatim>\<open>setupAuth\<close>: without an API key, the keys it stores, the canned handshake.\<close>

lemma setupAuth_no_key:
  "\<not> truthy (getConfig (store w) ''apiKey'') \<Longrightarrow>
   setupAuth P w = (Exited 1, emit (ErrorLine ''No API key configured. Run: bunq config set --api-key <key>'') w)"
  by (simp add: setupAuth_def Let_def)

lemma setupAuth_keys:
  assumes "truthy (getConfig (store w) ''apiKey'')"
    and "generateKeyPairSync P (draws w) = Inr (priv, pub)"
  shows "store (snd (setupAuth P w)) ''privateKey'' = Some (JStr priv)
       \<and> store (snd (setupAuth P w)) ''publicKey'' = Some (JStr pub)"
  using assms(1)
  by (cases rule: setupAuth_cases [where P = P]) (use assms(2) in \<open>auto\<close>)

lemma suffix_app [simp]: "suffix xs (ys @ xs)"
  by (simp add: suffix_def)

lemma parse_T1 [simp]:
  "parse_installation (envelope [token_entry t]) = Inr (JStr t, JNull)"
  by (simp add: parse_installation_def envelope_def token_entry_def thenE_def)

lemma parse_T2 [simp]:
  "parse_session P (envelope [token_entry t, JObj [(''UserPerson'', JObj [(''id'', JNum 42)])]])
     = Inr (JStr t, JStr ''42'')"
  by (simp add: parse_session_def envelope_def token_entry_def thenE_def num_String_def dec_int_def
      dec_nat.simps)

lemma canned_run:
  assumes key: "truthy (getConfig (store w) ''apiKey'')"
    and gen: "generateKeyPairSync P (draws w) = Inr (priv, pub)"
    and inst: "\<And>tr req. suffix ''/installation'' (req_url req) \<Longrightarrow>
                 axios P tr req = Inr (envelope [token_entry ''T1''])"
    and dev: "\<And>tr req. suffix ''/device-server'' (req_url req) \<Longrightarrow> \<exists>d. axios P tr req = Inr d"
    and sess: "\<And>tr req. suffix ''/session-server'' (req_url req) \<Longrightarrow>
                 axios P tr req = Inr (envelope [token_entry ''T2'',
                   JObj [(''UserPerson'', JObj [(''id'', JNum 42)])]])"
  shows "fst (setupAuth P w) = Returned
       \<and> length (trace (snd (setupAuth P w))) = length (trace w) + 3
       \<and> store (snd (setupAuth P w)) ''installationToken'' = Some (JStr ''T1'')
       \<and> store (snd (setupAuth P w)) ''sessionToken'' = Some (JStr ''T2'')
       \<and> store (snd (setupAuth P w)) ''userId'' = Some (JStr ''42'')"
proof -
  have i: "axios P tr (installation_request P a b v) = Inr (envelope [token_entry ''T1''])" for tr a b v
    by (rule inst) simp
  have d: "\<exists>d. axios P tr (device_request P c t v) = Inr d" for tr c t v
    by (rule dev) simp
  have s: "axios P tr (session_request P c t v) = Inr (envelope [token_entry ''T2'',
                   JObj [(''UserPerson'', JObj [(''id'', JNum 42)])]])" for tr c t v
    by (rule sess) simp
  from key show ?thesis
  proof (cases rule: setupAuth_cases [where P = P])
    case (keygen e wf)
    with gen show ?thesis by simp
  next
    case (inst_failed priv' pub' e wf)
    then show ?thesis using i by auto
  next
    case (dev_failed priv' pub' resp tok spk w2 e wf)
    then show ?thesis using d [of "trace w @ [installation_request P priv' pub' w]" "getConfig (store w)" tok w2]
      by auto
  next
    case (sess_failed priv' pub' resp tok spk w2 d' w3 e wf)
    then show ?thesis using s by auto
  next
    case (ok priv' pub' resp tok spk w2 d' w3 resp3 stok uid wf)
    then show ?thesis using i s by auto
  qed
qed

text \<open>A request that fails is the last one, and the run ends as \<^verbatim>\<open>handleError\<close> does.\<close>

lemma new_requests:
  assumes "tr @ req # rest = base @ new" and "length base \<le> length tr"
  obtains pre where "tr = base @ pre" and "new = pre @ req # rest"
  using split_trace [OF assms] by blast

lemma failure_stops_run:
  assumes tr: "trace (snd (setupAuth P w)) = tr @ req # rest"
    and len: "length (trace w) \<le> length tr"
    and ax: "axios P tr req = Inl e"
  shows "rest = [] \<and> (\<exists>wf. setupAuth P w = handleError P e wf \<and> trace wf = tr @ [req]
            \<and> store wf = store (snd (setupAuth P w)))"
proof (cases "truthy (getConfig (store w) ''apiKey'')")
  case False
  then have "trace (snd (setupAuth P w)) = trace w"
    by (simp add: setupAuth_no_key)
  with tr len show ?thesis
    by (metis length_append length_Cons add_Suc_right not_less_eq_eq le_add1 le_antisym
        add_le_same_cancel1 Suc_n_not_le_n)
next
  case True
  then show ?thesis
  proof (cases rule: setupAuth_cases [where P = P])
    case (keygen e' wf)
    with tr len show ?thesis
      by (metis handleError_facts(3) length_append length_Cons add_Suc_right not_less_eq_eq le_add1 le_antisym
        add_le_same_cancel1 Suc_n_not_le_n)
  next
    case (inst_failed priv pub e' wf)
    from tr inst_failed(2,3) have "tr @ req # rest = trace w @ [installation_request P priv pub w]"
      by simp
    then obtain pre where "tr = trace w @ pre" "[installation_request P priv pub w] = pre @ req # rest"
      using len by (rule new_requests)
    then have p: "tr = trace w" "req = installation_request P priv pub w" "rest = []"
      by (simp_all add: Cons_eq_append_conv)
    with ax inst_failed(5) have "e' = e" by auto
    with inst_failed p show ?thesis by auto
  next
    case (dev_failed priv pub resp tok spk w2 e' wf)
    let ?r1 = "installation_request P priv pub w"
    let ?r2 = "device_request P (getConfig (store w)) tok w2"
    from tr dev_failed(7,8) have "tr @ req # rest = trace w @ [?r1, ?r2]"
      by simp
    then obtain pre where "tr = trace w @ pre" "[?r1, ?r2] = pre @ req # rest"
      using len by (rule new_requests)
    then have "(tr = trace w \<and> req = ?r1) \<or> (tr = trace w @ [?r1] \<and> req = ?r2 \<and> rest = [])"
      by (auto simp add: Cons_eq_append_conv)
    with ax dev_failed(2,6) have p: "tr = trace w @ [?r1]" "req = ?r2" "rest = []" "e' = e"
      by auto
    with dev_failed show ?thesis by auto
  next
    case (sess_failed priv pub resp tok spk w2 d w3 e' wf)
    let ?r1 = "installation_request P priv pub w"
    let ?r2 = "device_request P (getConfig (store w)) tok w2"
    let ?r3 = "session_request P (getConfig (store w)) tok w3"
    from tr sess_failed(8,9) have "tr @ req # rest = trace w @ [?r1, ?r2, ?r3]"
      by simp
    then obtain pre where "tr = trace w @ pre" "[?r1, ?r2, ?r3] = pre @ req # rest"
      using len by (rule new_requests)
    then have "(tr = trace w \<and> req = ?r1) \<or> (tr = trace w @ [?r1] \<and> req = ?r2)
        \<or> (tr = trace w @ [?r1, ?r2] \<and> req = ?r3 \<and> rest = [])"
      by (auto simp add: Cons_eq_append_conv)
    with ax sess_failed(2,6) have p: "tr = trace w @ [?r1, ?r2]" "req = ?r3" "rest = []"
      by auto
    with ax sess_failed(11) have "e' = e" by auto
    with sess_failed p show ?thesis by auto
  next
    case (ok priv pub resp tok spk w2 d w3 resp3 stok uid wf)
    let ?r1 = "installation_request P priv pub w"
    let ?r2 = "device_request P (getConfig (store w)) tok w2"
    let ?r3 = "session_request P (getConfig (store w)) tok w3"
    from tr ok(11,12) have "tr @ req # rest = trace w @ [?r1, ?r2, ?r3]"
      by simp
    then obtain pre where "tr = trace w @ pre" "[?r1, ?r2, ?r3] = pre @ req # rest"
      using len by (rule new_requests)
    then have "(tr = trace w \<and> req = ?r1) \<or> (tr = trace w @ [?r1] \<and> req = ?r2)
        \<or> (tr = trace w @ [?r1, ?r2] \<and> req = ?r3 \<and> rest = [])"
      by (auto simp add: Cons_eq_append_conv)
    with ax ok(2,6,8) show ?thesis by auto
  qed
qed

lemma setupAuth_ends:
  assumes "truthy (getConfig (store w) ''apiKey'')"
  shows "fst (setupAuth P w) = Returned \<or> (\<exists>e wf. setupAuth P w = handleError P e wf)"
  using assms
  by (cases rule: setupAuth_cases [where P = P]) auto






text \<open>
  A request to the device or the session endpoint in a run of \<^verbatim>\<open>setupAuth\<close> comes after
  the installation request of that run, which was answered with a truthy token.
\<close>

lemma later_requests_follow_installation:
  assumes tr: "trace (snd (setupAuth P w)) = tr @ req # rest"
    and len: "length (trace w) \<le> length tr"
    and later: "suffix ''/device-server'' (req_url req) \<or> suffix ''/session-server'' (req_url req)"
  shows "\<exists>priv pub resp tok spk pre.
           tr = trace w @ installation_request P priv pub w # pre
         \<and> axios P (trace w) (installation_request P priv pub w) = Inr resp
         \<and> parse_installation resp = Inr (tok, spk) \<and> truthy tok
         \<and> map_of (req_headers req) ''X-Bunq-Client-Authentication'' = Some tok"
proof (cases "truthy (getConfig (store w) ''apiKey'')")
  case False
  then have "trace (snd (setupAuth P w)) = trace w"
    by (simp add: setupAuth_no_key)
  with tr len show ?thesis
    by (metis length_append length_Cons add_Suc_right not_less_eq_eq le_add1 le_antisym
        add_le_same_cancel1 Suc_n_not_le_n)
next
  case True
  have found: ?thesis
    if "tr = trace w @ installation_request P priv pub w # pre"
      "axios P (trace w) (installation_request P priv pub w) = Inr resp"
      "parse_installation resp = Inr (tok, spk)" "truthy tok"
      "map_of (req_headers req) ''X-Bunq-Client-Authentication'' = Some tok"
    for priv pub pre resp tok spk
    using that by blast
  from True show ?thesis
  proof (cases rule: setupAuth_cases [where P = P])
    case (keygen e' wf)
    with tr len show ?thesis
      by (metis handleError_facts(3) length_append length_Cons add_Suc_right not_less_eq_eq le_add1 le_antisym
        add_le_same_cancel1 Suc_n_not_le_n)
  next
    case (inst_failed priv pub e' wf)
    from tr inst_failed(2,3) have "tr @ req # rest = trace w @ [installation_request P priv pub w]"
      by simp
    then obtain pre where "tr = trace w @ pre" "[installation_request P priv pub w] = pre @ req # rest"
      using len by (rule new_requests)
    then have p: "req = installation_request P priv pub w"
      by (simp_all add: Cons_eq_append_conv)
    with later show ?thesis by (simp add: installation_not_later)
  next
    case (dev_failed priv pub resp tok spk w2 e' wf)
    let ?r1 = "installation_request P priv pub w"
    let ?r2 = "device_request P (getConfig (store w)) tok w2"
    from tr dev_failed(7,8) have "tr @ req # rest = trace w @ [?r1, ?r2]"
      by simp
    then obtain pre where "tr = trace w @ pre" "[?r1, ?r2] = pre @ req # rest"
      using len by (rule new_requests)
    then have "(tr = trace w \<and> req = ?r1) \<or> (tr = trace w @ [?r1] \<and> req = ?r2 \<and> rest = [])"
      by (auto simp add: Cons_eq_append_conv)
    with later have p: "tr = trace w @ [?r1]" "req = ?r2"
      by (auto simp add: installation_not_later)
    show ?thesis
      by (rule found [of priv pub "[]" resp tok spk])
         (use p dev_failed(2,3,4) in \<open>simp_all add: request_auth\<close>)
  next
    case (sess_failed priv pub resp tok spk w2 d w3 e' wf)
    let ?r1 = "installation_request P priv pub w"
    let ?r2 = "device_request P (getConfig (store w)) tok w2"
    let ?r3 = "session_request P (getConfig (store w)) tok w3"
    from tr sess_failed(8,9) have "tr @ req # rest = trace w @ [?r1, ?r2, ?r3]"
      by simp
    then obtain pre where "tr = trace w @ pre" "[?r1, ?r2, ?r3] = pre @ req # rest"
      using len by (rule new_requests)
    then have "(tr = trace w \<and> req = ?r1) \<or> (tr = trace w @ [?r1] \<and> req = ?r2)
        \<or> (tr = trace w @ [?r1, ?r2] \<and> req = ?r3 \<and> rest = [])"
      by (auto simp add: Cons_eq_append_conv)
    with later have "(tr = trace w @ [?r1] \<and> req = ?r2) \<or> (tr = trace w @ [?r1, ?r2] \<and> req = ?r3)"
      by (auto simp add: installation_not_later)
    then show ?thesis
    proof (elim disjE conjE)
      assume "tr = trace w @ [?r1]" "req = ?r2"
      then show ?thesis
        by (intro found [of priv pub "[]" resp tok spk])
           (use sess_failed(2,3,4) in \<open>simp_all add: request_auth\<close>)
    next
      assume "tr = trace w @ [?r1, ?r2]" "req = ?r3"
      then show ?thesis
        by (intro found [of priv pub "[?r2]" resp tok spk])
           (use sess_failed(2,3,4) in \<open>simp_all add: request_auth\<close>)
    qed
  next
    case (ok priv pub resp tok spk w2 d w3 resp3 stok uid wf)
    let ?r1 = "installation_request P priv pub w"
    let ?r2 = "device_request P (getConfig (store w)) tok w2"
    let ?r3 = "session_request P (getConfig (store w)) tok w3"
    from tr ok(11,12) have "tr @ req # rest = trace w @ [?r1, ?r2, ?r3]"
      by simp
    then obtain pre where "tr = trace w @ pre" "[?r1, ?r2, ?r3] = pre @ req # rest"
      using len by (rule new_requests)
    then have "(tr = trace w \<and> req = ?r1) \<or> (tr = trace w @ [?r1] \<and> req = ?r2)
        \<or> (tr = trace w @ [?r1, ?r2] \<and> req = ?r3 \<and> rest = [])"
      by (auto simp add: Cons_eq_append_conv)
    with later have "(tr = trace w @ [?r1] \<and> req = ?r2) \<or> (tr = trace w @ [?r1, ?r2] \<and> req = ?r3)"
      by (auto simp add: installation_not_later)
    then show ?thesis
    proof (elim disjE conjE)
      assume "tr = trace w @ [?r1]" "req = ?r2"
      then show ?thesis
        by (intro found [of priv pub "[]" resp tok spk])
           (use ok(2,3,4) in \<open>simp_all add: request_auth\<close>)
    next
      assume "tr = trace w @ [?r1, ?r2]" "req = ?r3"
      then show ?thesis
        by (intro found [of priv pub "[?r2]" resp tok spk])
           (use ok(2,3,4) in \<open>simp_all add: request_auth\<close>)
    qed
  qed
qed

text \<open>The three ways of \<^verbatim>\<open>refreshSession\<close>.\<close>

lemma refreshSession_no_key:
  "\<not> truthy (getConfig (store w) ''apiKey'') \<Longrightarrow>
   refreshSession P w = (Exited 1, emit (ErrorLine ''No API key configured. Run: bunq config set --api-key <key>'') w)"
  by (simp add: refreshSession_def Let_def)

lemma refreshSession_delegates:
  "truthy (getConfig (store w) ''apiKey'') \<Longrightarrow> \<not> truthy (getConfig (store w) ''installationToken'') \<Longrightarrow>
   refreshSession P w = setupAuth P (emit (Info ''No installation found. Running full setup...'') w)"
  by (simp add: refreshSession_def Let_def)

lemma refreshSession_trace:
  assumes "truthy (getConfig (store w) ''apiKey'')"
    and "truthy (getConfig (store w) ''installationToken'')"
  shows "trace (snd (refreshSession P w)) =
     trace w @ [session_request P (getConfig (store w)) (getConfig (store w) ''installationToken'') w]"
proof -
  let ?w0 = "emit (SpinnerStart ''Refreshing session...'') w"
  obtain r w' where cs: "create_session P (getConfig (store w)) (getConfig (store w) ''installationToken'')
      ''Failed to obtain session token.'' ?w0 = (r, w')"
    by (cases "create_session P (getConfig (store w)) (getConfig (store w) ''installationToken'')
      ''Failed to obtain session token.'' ?w0")
  from cs have "trace w' = trace w @
      [session_request P (getConfig (store w)) (getConfig (store w) ''installationToken'') w]"
    by (cases rule: create_session_cases) simp_all
  with cs assms show ?thesis
    by (cases r) (simp_all add: refreshSession_def Let_def)
qed

text \<open>Evaluation of the fixtures.\<close>

lemma dec_nat_digit: "n < 10 \<Longrightarrow> dec_nat n = [''0123456789'' ! n]"
  by (simp add: dec_nat.simps)

lemma dec_int_42 [simp]: "dec_int 42 = ''42''"
  by (simp add: dec_int_def dec_nat.simps)

lemma dec_int_401 [simp]: "dec_int 401 = ''401''"
  by (simp add: dec_int_def dec_nat.simps)

lemmas eval_defs = run_defs fixture_defs Let_def dec_nat_digit
  abc_platform_def rejecting_platform_def fresh_keys_platform_def person_entry_def server_key_entry_def
  installation_request_def

lemma suffix_installation_excl:
  "suffix ''/installation'' u \<Longrightarrow> \<not> suffix ''/device-server'' u"
  "suffix ''/installation'' u \<Longrightarrow> \<not> suffix ''/session-server'' u"
  by (auto dest!: suffix_last)

lemma suffix_device_excl:
  assumes "suffix ''/device-server'' u"
  shows "\<not> suffix ''/session-server'' u"
proof
  assume "suffix ''/session-server'' u"
  with assms have "suffix ''/device-server'' ''/session-server''
      \<or> suffix ''/session-server'' ''/device-server''"
    by (rule suffix_same_cases)
  then show False
    by (simp add: suffix_to_prefix)
qed

lemma canned_axios_simps:
  "suffix ''/installation'' (req_url req) \<Longrightarrow> canned_axios i d s tr req = i"
  "suffix ''/device-server'' (req_url req) \<Longrightarrow> canned_axios i d s tr req = d"
  "suffix ''/session-server'' (req_url req) \<Longrightarrow> canned_axios i d s tr req = s"
  using suffix_installation_excl [of "req_url req"] suffix_device_excl [of "req_url req"]
  by (auto simp add: canned_axios_def)

section \<open>The request dispatcher\<close>

text \<open>
  C10. The dispatcher leaves the configuration store as it found it, whatever the
  method, the path, the body and the explicit token are, and whether the remote end
  answers or fails: \<^verbatim>\<open>bunqRequest\<close> only reads the store, and so do the four wrappers.
\<close>

theorem dispatch_leaves_store:
  "store (snd (bunqRequest P method endpoint body token w)) = store w
   \<and> store (snd (bunqGet P endpoint w)) = store w
   \<and> store (snd (bunqPost P endpoint body token w)) = store w
   \<and> store (snd (bunqPut P endpoint body w)) = store w
   \<and> store (snd (bunqDelete P endpoint w)) = store w"
  by (simp add: bunqGet_def bunqPost_def bunqPut_def bunqDelete_def)

theorem dispatch_leaves_store_witness:
  "store (snd (bunqRequest
      happy_platform
      ''POST'' ''/session-server'' (JObj [(''secret'', JStr ''K'')]) (JStr ''T1'')
      (world_of [(''apiKey'', JStr ''K''), (''privateKey'', JStr ''PRIV'')])))
    = map_of [(''apiKey'', JStr ''K''), (''privateKey'', JStr ''PRIV'')]"
  using dispatch_leaves_store [of
      happy_platform
      "''POST''" "''/session-server''" "JObj [(''secret'', JStr ''K'')]" "JStr ''T1''"
      "world_of [(''apiKey'', JStr ''K''), (''privateKey'', JStr ''PRIV'')]"]
  by (simp add: world_of_def)

text \<open>
  C7. Every call of the dispatcher sends one request, and the authentication header of
  that request is chosen in a fixed order: the explicit token if it is given (truthy),
  else the stored session token, else the stored installation token; with none of the
  three the request carries no authentication header.
\<close>

theorem auth_token_precedence:
  "\<exists>req. trace (snd (bunqRequest P method endpoint body token w)) = trace w @ [req]
     \<and> map_of (req_headers req) ''X-Bunq-Client-Authentication'' =
        (if truthy token then Some token
         else if truthy (getConfig (store w) ''sessionToken'')
           then Some (getConfig (store w) ''sessionToken'')
         else if truthy (getConfig (store w) ''installationToken'')
           then Some (getConfig (store w) ''installationToken'')
         else None)"
  by (simp add: auth_header_build Let_def js_or_def default_null_truthy)

theorem auth_token_precedence_witness:
  "map_of (req_headers (last (trace (snd (bunqRequest
      happy_platform
      ''GET'' ''/user'' JNull JNull
      (world_of [(''sessionToken'', JStr ''S''), (''installationToken'', JStr ''I'')]))))))
     ''X-Bunq-Client-Authentication'' = Some (JStr ''S'')"
  using auth_token_precedence [of
      happy_platform
      "''GET''" "''/user''" JNull JNull
      "world_of [(''sessionToken'', JStr ''S''), (''installationToken'', JStr ''I'')]"]
  by (auto simp add: world_of_def getConfig_def)

text \<open>
  C8. The dispatcher never fails because of the signature: in every call the request
  is handed to the HTTP library and the result of the call is the library's. The
  signature header is on the request exactly when the stored private key is truthy and
  the signer produced a signature that is not empty; when the key is absent or the
  signing fails the same request goes out without that header.
\<close>

theorem signature_best_effort:
  "\<exists>req. bunqRequest P method endpoint body token w =
           (axios P (trace w) req, w\<lparr>trace := trace w @ [req], draws := Suc (draws w)\<rparr>)
     \<and> map_of (req_headers req) ''X-Bunq-Client-Signature'' =
        (if truthy (getConfig (store w) ''privateKey'')
         then (case rsa_sha256 P (dataToSign P method endpoint (default_null body))
                      (getConfig (store w) ''privateKey'') of
                 Some s \<Rightarrow> if s \<noteq> [] then Some (JStr s) else None
               | None \<Rightarrow> None)
         else None)"
  by (rule exI [of _ "build_request P method endpoint (default_null body) (default_null token) w"])
     (simp add: bunqRequest_def Let_def sig_header_build crypto_sign_def)

theorem signature_best_effort_witness:
  "map_of (req_headers (last (trace (snd (bunqRequest happy_platform ''GET'' ''/user'' JNull JNull
      (world_of [(''privateKey'', JStr ''not a key'')]))))))
     ''X-Bunq-Client-Signature'' = None
   \<and> length (trace (snd (bunqRequest happy_platform ''GET'' ''/user'' JNull JNull
      (world_of [(''privateKey'', JStr ''not a key'')])))) = 1"
proof -
  obtain req where
    run: "bunqRequest happy_platform ''GET'' ''/user'' JNull JNull
            (world_of [(''privateKey'', JStr ''not a key'')]) =
          (axios happy_platform (trace (world_of [(''privateKey'', JStr ''not a key'')])) req,
           (world_of [(''privateKey'', JStr ''not a key'')])
             \<lparr>trace := trace (world_of [(''privateKey'', JStr ''not a key'')]) @ [req],
              draws := Suc (draws (world_of [(''privateKey'', JStr ''not a key'')]))\<rparr>)"
    and hdr: "map_of (req_headers req) ''X-Bunq-Client-Signature'' =
          (if truthy (getConfig (store (world_of [(''privateKey'', JStr ''not a key'')])) ''privateKey'')
           then (case rsa_sha256 happy_platform (dataToSign happy_platform ''GET'' ''/user'' (default_null JNull))
                        (getConfig (store (world_of [(''privateKey'', JStr ''not a key'')])) ''privateKey'') of
                   Some s \<Rightarrow> if s \<noteq> [] then Some (JStr s) else None
                 | None \<Rightarrow> None)
           else None)"
    using signature_best_effort [of happy_platform "''GET''" "''/user''" JNull JNull
        "world_of [(''privateKey'', JStr ''not a key'')]"]
    by blast
  from hdr have "map_of (req_headers req) ''X-Bunq-Client-Signature'' = None"
    by (simp add: world_of_def getConfig_def happy_platform_def demo_platform_def)
  with run show ?thesis
    by (simp add: world_of_def del: bunqRequest_snd bunqRequest_fst)
qed

section \<open>The canonical signer\<close>

text \<open>
  C6. The string that is signed is the method in upper case, one space, \<^verbatim>\<open>/v1\<close>
  followed by the path, two newlines, and the serialized body, which is the empty
  string when there is no (truthy) body. Upper case is that of \<^verbatim>\<open>toUpperCase()\<close>: for a
  method of ASCII characters each letter \<^verbatim>\<open>a\<close> to \<^verbatim>\<open>z\<close> is replaced by the letter 32
  code points below it and every other character is kept, so that the four methods of
  the client stay as they are. \<^verbatim>\<open>signRequest\<close> returns a string in every case: the
  signature of that string under the key, and the empty string, which stands for no
  signature, when the key is falsy or the signing fails.
\<close>

theorem signing_string:
  "dataToSign P method endpoint body =
      toUpperCase P method @ '' '' @ ''/v1'' @ endpoint @ [CHR 0x0A, CHR 0x0A]
        @ (if truthy body then stringify P body else [])
   \<and> (ascii method \<longrightarrow>
        length (toUpperCase P method) = length method
      \<and> (\<forall>i<length method.
           (method ! i \<in> set ''abcdefghijklmnopqrstuvwxyz'' \<longrightarrow>
              (of_char (toUpperCase P method ! i) :: nat) + 32 = of_char (method ! i))
         \<and> (method ! i \<notin> set ''abcdefghijklmnopqrstuvwxyz'' \<longrightarrow>
              toUpperCase P method ! i = method ! i)))
   \<and> toUpperCase P ''GET'' = ''GET'' \<and> toUpperCase P ''POST'' = ''POST''
   \<and> toUpperCase P ''PUT'' = ''PUT'' \<and> toUpperCase P ''DELETE'' = ''DELETE''
   \<and> signRequest P method endpoint body key =
      (if truthy key
       then (case rsa_sha256 P (dataToSign P method endpoint body) key of Some s \<Rightarrow> s | None \<Rightarrow> [])
       else [])
   \<and> (\<not> truthy key \<or> rsa_sha256 P (dataToSign P method endpoint body) key = None \<longrightarrow>
        signRequest P method endpoint body key = [])"
proof -
  have str: "dataToSign P method endpoint body =
      toUpperCase P method @ '' '' @ ''/v1'' @ endpoint @ [CHR 0x0A, CHR 0x0A]
        @ (if truthy body then stringify P body else [])"
    by (simp add: dataToSign_def Let_def)
  have up: "length (toUpperCase P method) = length method
      \<and> (\<forall>i<length method.
           (method ! i \<in> set ''abcdefghijklmnopqrstuvwxyz'' \<longrightarrow>
              (of_char (toUpperCase P method ! i) :: nat) + 32 = of_char (method ! i))
         \<and> (method ! i \<notin> set ''abcdefghijklmnopqrstuvwxyz'' \<longrightarrow>
              toUpperCase P method ! i = method ! i))"
    if "ascii method"
  proof -
    from that have eq: "toUpperCase P method = map upper_char method"
      by (rule toUpperCase_ascii)
    show ?thesis
      unfolding eq using upper_char_lower upper_char_other by simp
  qed
  have sig: "signRequest P method endpoint body key =
      (if truthy key
       then (case rsa_sha256 P (dataToSign P method endpoint body) key of Some s \<Rightarrow> s | None \<Rightarrow> [])
       else [])"
    by (simp add: signRequest_def crypto_sign_def)
  have none: "signRequest P method endpoint body key = []"
    if "\<not> truthy key \<or> rsa_sha256 P (dataToSign P method endpoint body) key = None"
    using that sig by auto
  from up have up': "ascii method \<longrightarrow>
        length (toUpperCase P method) = length method
      \<and> (\<forall>i<length method.
           (method ! i \<in> set ''abcdefghijklmnopqrstuvwxyz'' \<longrightarrow>
              (of_char (toUpperCase P method ! i) :: nat) + 32 = of_char (method ! i))
         \<and> (method ! i \<notin> set ''abcdefghijklmnopqrstuvwxyz'' \<longrightarrow>
              toUpperCase P method ! i = method ! i))"
    by (rule impI)
  from none have none': "\<not> truthy key \<or> rsa_sha256 P (dataToSign P method endpoint body) key = None \<longrightarrow>
        signRequest P method endpoint body key = []"
    by (rule impI)
  from str up' toUpperCase_methods [of P] sig none' show ?thesis
    by (intro conjI) assumption+
qed

theorem signing_string_witness:
  "dataToSign happy_platform ''post'' ''/installation'' JNull
     = ''POST /v1/installation'' @ [CHR 0x0A, CHR 0x0A]
   \<and> dataToSign happy_platform ''POST'' ''/session-server'' (JStr ''body'')
     = ''POST /v1/session-server'' @ [CHR 0x0A, CHR 0x0A] @ ''json:body''
   \<and> signRequest happy_platform ''post'' ''/installation'' JNull JUndefined = []
   \<and> signRequest happy_platform ''post'' ''/installation'' JNull (JStr ''not a key'') = []
   \<and> signRequest happy_platform ''post'' ''/installation'' JNull (JStr ''PRIV'') = ''c2lnbmVk''"
proof -
  note string = conjunct1
  note signature = conjunct2 [THEN conjunct2, THEN conjunct2, THEN conjunct2, THEN conjunct2,
      THEN conjunct2, THEN conjunct1]
  have up: "toUpperCase P ''post'' = ''POST''" "toUpperCase P ''POST'' = ''POST''" for P
    by (simp_all add: toUpperCase_def upper_char_def ascii_def)
  have "dataToSign happy_platform ''post'' ''/installation'' JNull
      = ''POST /v1/installation'' @ [CHR 0x0A, CHR 0x0A]"
    using signing_string [of happy_platform "''post''" "''/installation''" JNull JUndefined,
        THEN string]
    by (simp add: up)
  moreover have "dataToSign happy_platform ''POST'' ''/session-server'' (JStr ''body'')
      = ''POST /v1/session-server'' @ [CHR 0x0A, CHR 0x0A] @ ''json:body''"
    using signing_string [of happy_platform "''POST''" "''/session-server''" "JStr ''body''" JUndefined,
        THEN string]
    by (simp add: up happy_platform_def demo_platform_def demo_render_def)
  moreover have "signRequest happy_platform ''post'' ''/installation'' JNull JUndefined = []"
    using signing_string [of happy_platform "''post''" "''/installation''" JNull JUndefined,
        THEN signature]
    by simp
  moreover have "signRequest happy_platform ''post'' ''/installation'' JNull (JStr ''not a key'') = []"
    using signing_string [of happy_platform "''post''" "''/installation''" JNull "JStr ''not a key''",
        THEN signature]
    by (simp add: happy_platform_def demo_platform_def)
  moreover have "signRequest happy_platform ''post'' ''/installation'' JNull (JStr ''PRIV'') = ''c2lnbmVk''"
    using signing_string [of happy_platform "''post''" "''/installation''" JNull "JStr ''PRIV''",
        THEN signature]
    by (simp add: happy_platform_def demo_platform_def)
  ultimately show ?thesis by (intro conjI)
qed

section \<open>Rotating the secret\<close>

text \<open>
  C4. After \<^verbatim>\<open>config set --api-key <key>\<close> with a key (one that is not the empty
  string, for which the command stores nothing), the store holds the new key and none
  of \<^verbatim>\<open>sessionToken\<close>, \<^verbatim>\<open>installationToken\<close>, \<^verbatim>\<open>privateKey\<close>, \<^verbatim>\<open>publicKey\<close>,
  \<^verbatim>\<open>serverPublicKey\<close>, \<^verbatim>\<open>userId\<close>, whatever it held before and whichever environment
  flag comes with the key.
\<close>

theorem rotate_secret_clears:
  assumes "opt_apiKey opts = Some key" and "key \<noteq> []"
  shows "store (config_set opts w) ''apiKey'' = Some (JStr key)
    \<and> store (config_set opts w) ''sessionToken'' = None
    \<and> store (config_set opts w) ''installationToken'' = None
    \<and> store (config_set opts w) ''privateKey'' = None
    \<and> store (config_set opts w) ''publicKey'' = None
    \<and> store (config_set opts w) ''serverPublicKey'' = None
    \<and> store (config_set opts w) ''userId'' = None"
  using assms by (simp add: config_set_def set_apiKey_def Let_def opt_given_def)

theorem rotate_secret_clears_witness:
  "store (config_set \<lparr>opt_apiKey = Some ''K2'', opt_sandbox = True, opt_production = False\<rparr>
      (world_of [(''apiKey'', JStr ''K1''), (''sessionToken'', JStr ''S''),
                 (''installationToken'', JStr ''I''), (''privateKey'', JStr ''PRIV''),
                 (''publicKey'', JStr ''PUB''), (''serverPublicKey'', JStr ''SPK''),
                 (''userId'', JStr ''42'')])) ''apiKey'' = Some (JStr ''K2'')
   \<and> store (config_set \<lparr>opt_apiKey = Some ''K2'', opt_sandbox = True, opt_production = False\<rparr>
      (world_of [(''apiKey'', JStr ''K1''), (''sessionToken'', JStr ''S''),
                 (''installationToken'', JStr ''I''), (''privateKey'', JStr ''PRIV''),
                 (''publicKey'', JStr ''PUB''), (''serverPublicKey'', JStr ''SPK''),
                 (''userId'', JStr ''42'')])) ''installationToken'' = None
   \<and> store (config_set \<lparr>opt_apiKey = Some ''K2'', opt_sandbox = True, opt_production = False\<rparr>
      (world_of [(''apiKey'', JStr ''K1''), (''sessionToken'', JStr ''S''),
                 (''installationToken'', JStr ''I''), (''privateKey'', JStr ''PRIV''),
                 (''publicKey'', JStr ''PUB''), (''serverPublicKey'', JStr ''SPK''),
                 (''userId'', JStr ''42'')])) ''privateKey'' = None"
  using rotate_secret_clears [of "\<lparr>opt_apiKey = Some ''K2'', opt_sandbox = True, opt_production = False\<rparr>" "''K2''"
      "world_of [(''apiKey'', JStr ''K1''), (''sessionToken'', JStr ''S''),
                 (''installationToken'', JStr ''I''), (''privateKey'', JStr ''PRIV''),
                 (''publicKey'', JStr ''PUB''), (''serverPublicKey'', JStr ''SPK''),
                 (''userId'', JStr ''42'')]"]
  by simp

section \<open>The handshake\<close>

text \<open>
  C1, as amended. In every run of \<^verbatim>\<open>setupAuth\<close> with an API key in the store, in which
  the key generation succeeds and the remote end answers the installation with the
  token \<^verbatim>\<open>T1\<close>, the device registration with any response and the session creation
  with the token \<^verbatim>\<open>T2\<close> and the person 42, the command returns after three requests
  and the store holds \<^verbatim>\<open>installationToken\<close> \<^verbatim>\<open>T1\<close>, \<^verbatim>\<open>sessionToken\<close> \<^verbatim>\<open>T2\<close> and \<^verbatim>\<open>userId\<close>
  \<^verbatim>\<open>42\<close>. In every run, a request that the remote end answers with an error is the last
  request of the run, and the error is not passed on to the caller: the run ends as
  \<^verbatim>\<open>handleError\<close> ends on that error, with a line on the error stream and exit status 1.
  Without an API key the run prints the missing-key line and exits with status 1,
  having sent nothing; with one, a run that does not return ends as \<^verbatim>\<open>handleError\<close>
  ends on some error.
\<close>

theorem full_setup_run:
  "(truthy (getConfig (store w) ''apiKey'')
      \<and> generateKeyPairSync P (draws w) = Inr (priv, pub)
      \<and> (\<forall>tr req. suffix ''/installation'' (req_url req) \<longrightarrow>
            axios P tr req = Inr (envelope [token_entry ''T1'']))
      \<and> (\<forall>tr req. suffix ''/device-server'' (req_url req) \<longrightarrow> (\<exists>d. axios P tr req = Inr d))
      \<and> (\<forall>tr req. suffix ''/session-server'' (req_url req) \<longrightarrow>
            axios P tr req = Inr (envelope [token_entry ''T2'',
              JObj [(''UserPerson'', JObj [(''id'', JNum 42)])]]))
    \<longrightarrow> fst (setupAuth P w) = Returned
       \<and> length (trace (snd (setupAuth P w))) = length (trace w) + 3
       \<and> store (snd (setupAuth P w)) ''installationToken'' = Some (JStr ''T1'')
       \<and> store (snd (setupAuth P w)) ''sessionToken'' = Some (JStr ''T2'')
       \<and> store (snd (setupAuth P w)) ''userId'' = Some (JStr ''42''))
   \<and> (\<forall>tr req rest e.
         trace (snd (setupAuth P w)) = tr @ req # rest \<and> length (trace w) \<le> length tr
         \<and> axios P tr req = Inl e \<longrightarrow>
         rest = [] \<and> (\<exists>wf. setupAuth P w = handleError P e wf \<and> trace wf = tr @ [req]
            \<and> store wf = store (snd (setupAuth P w))))
   \<and> (\<not> truthy (getConfig (store w) ''apiKey'') \<longrightarrow>
         setupAuth P w =
           (Exited 1, emit (ErrorLine ''No API key configured. Run: bunq config set --api-key <key>'') w))
   \<and> (truthy (getConfig (store w) ''apiKey'') \<longrightarrow>
         fst (setupAuth P w) = Returned \<or> (\<exists>e wf. setupAuth P w = handleError P e wf))"
  using canned_run [of w P priv pub] failure_stops_run [of P w] setupAuth_no_key [of w P]
    setupAuth_ends [of w P]
  by blast

theorem full_setup_run_witness:
  "fst (setupAuth happy_platform (world_of [(''apiKey'', JStr ''K'')])) = Returned
   \<and> length (trace (snd (setupAuth happy_platform (world_of [(''apiKey'', JStr ''K'')])))) = 3
   \<and> store (snd (setupAuth happy_platform (world_of [(''apiKey'', JStr ''K'')]))) ''installationToken''
       = Some (JStr ''T1'')
   \<and> store (snd (setupAuth happy_platform (world_of [(''apiKey'', JStr ''K'')]))) ''sessionToken''
       = Some (JStr ''T2'')
   \<and> store (snd (setupAuth happy_platform (world_of [(''apiKey'', JStr ''K'')]))) ''userId''
       = Some (JStr ''42'')"
proof -
  have ax: "axios happy_platform = canned_axios
          (Inr (envelope [token_entry ''T1'']))
          (Inr (envelope []))
          (Inr (envelope [token_entry ''T2'', JObj [(''UserPerson'', JObj [(''id'', JNum 42)])]]))"
    by (simp add: happy_platform_def demo_platform_def)
  have key: "truthy (getConfig (store (world_of [(''apiKey'', JStr ''K'')])) ''apiKey'')"
    by (simp add: world_of_def getConfig_def)
  have gen: "generateKeyPairSync happy_platform (draws (world_of [(''apiKey'', JStr ''K'')]))
      = Inr (''PRIV'', ''PUB'')"
    by (simp add: happy_platform_def demo_platform_def)
  have inst: "\<forall>tr req. suffix ''/installation'' (req_url req) \<longrightarrow>
      axios happy_platform tr req = Inr (envelope [token_entry ''T1''])"
    by (simp add: ax canned_axios_simps)
  have dev: "\<forall>tr req. suffix ''/device-server'' (req_url req) \<longrightarrow>
      (\<exists>d. axios happy_platform tr req = Inr d)"
    by (simp add: ax canned_axios_simps)
  have sess: "\<forall>tr req. suffix ''/session-server'' (req_url req) \<longrightarrow>
      axios happy_platform tr req = Inr (envelope [token_entry ''T2'',
        JObj [(''UserPerson'', JObj [(''id'', JNum 42)])]])"
    by (simp add: ax canned_axios_simps)
  from full_setup_run [of "world_of [(''apiKey'', JStr ''K'')]" happy_platform "''PRIV''" "''PUB''"]
    key gen inst dev sess
  show ?thesis by (simp add: world_of_def)
qed

text \<open>
  The claim as written fails twice. With the same canned answers and no API key in the
  store nothing is requested and no token is stored. And a failure is reported, not
  surfaced unchanged: two different errors of the installation call, which differ in
  their message, end the run in the same way, with the line for the status and the
  data of the response and exit status 1.
\<close>

theorem full_setup_counterexample:
  "store (snd (setupAuth happy_platform (world_of []))) ''installationToken'' = None
   \<and> trace (snd (setupAuth happy_platform (world_of []))) = []
   \<and> fst (setupAuth happy_platform (world_of [])) = Exited 1
   \<and> Rejected (Some (401, JNull)) ''Unauthorized''
       \<noteq> Rejected (Some (401, JNull)) ''Request failed with status code 401''
   \<and> setupAuth (rejecting_platform ''Unauthorized'') (world_of [(''apiKey'', JStr ''K'')])
       = setupAuth (rejecting_platform ''Request failed with status code 401'')
           (world_of [(''apiKey'', JStr ''K'')])
   \<and> fst (setupAuth (rejecting_platform ''Unauthorized'') (world_of [(''apiKey'', JStr ''K'')])) = Exited 1
   \<and> out (snd (setupAuth (rejecting_platform ''Unauthorized'') (world_of [(''apiKey'', JStr ''K'')])))
       = [SpinnerStart ''Setting up Bunq authentication...'',
          SpinnerText ''Generating RSA key pair...'',
          SpinnerText ''Registering installation with Bunq...'',
          SpinnerFail ''Authentication failed.'',
          ErrorLine ''HTTP 401: json:null'']"
  by (simp add: eval_defs)

section \<open>The key pair\<close>

text \<open>
  C2, as amended. The key-pair step of \<^verbatim>\<open>setupAuth\<close> is not idempotent: every run with
  an API key in the store in which the key generation succeeds puts the newly
  generated private and public key into the store, whatever the store held before.
\<close>

theorem keypair_regenerated:
  assumes "truthy (getConfig (store w) ''apiKey'')"
    and "generateKeyPairSync P (draws w) = Inr (priv, pub)"
  shows "store (snd (setupAuth P w)) ''privateKey'' = Some (JStr priv)
       \<and> store (snd (setupAuth P w)) ''publicKey'' = Some (JStr pub)"
  using assms by (rule setupAuth_keys)

theorem keypair_regenerated_witness:
  "store (snd (setupAuth happy_platform
      (world_of [(''apiKey'', JStr ''K''), (''privateKey'', JStr ''OLD-PRIV''),
                 (''publicKey'', JStr ''OLD-PUB'')]))) ''privateKey'' = Some (JStr ''PRIV'')
   \<and> store (snd (setupAuth happy_platform
      (world_of [(''apiKey'', JStr ''K''), (''privateKey'', JStr ''OLD-PRIV''),
                 (''publicKey'', JStr ''OLD-PUB'')]))) ''publicKey'' = Some (JStr ''PUB'')"
  by (rule keypair_regenerated) (simp_all add: world_of_def getConfig_def happy_platform_def demo_platform_def)

text \<open>
  Two runs in a row, the keys of the first still in the store: the second run
  replaces them with the next pair that the generator yields.
\<close>

theorem keypair_counterexample:
  "store (snd (setupAuth fresh_keys_platform (world_of [(''apiKey'', JStr ''K'')]))) ''privateKey''
     = Some (JStr ''PRIV0'')
   \<and> store (snd (setupAuth fresh_keys_platform (world_of [(''apiKey'', JStr ''K'')]))) ''publicKey''
     = Some (JStr ''PUB0'')
   \<and> store (snd (setupAuth fresh_keys_platform
        (snd (setupAuth fresh_keys_platform (world_of [(''apiKey'', JStr ''K'')]))))) ''privateKey''
     = Some (JStr ''PRIV4'')
   \<and> store (snd (setupAuth fresh_keys_platform
        (snd (setupAuth fresh_keys_platform (world_of [(''apiKey'', JStr ''K'')]))))) ''publicKey''
     = Some (JStr ''PUB4'')"
  by (simp add: eval_defs)

section \<open>The order of the steps\<close>

text \<open>
  C3, as amended. With no installation token in the store, \<^verbatim>\<open>refreshSession\<close> does not
  fail for that reason: without an API key it prints the missing-key line and exits
  with status 1, having sent nothing; with an API key it runs \<^verbatim>\<open>setupAuth\<close>. In both
  cases a request to \<^verbatim>\<open>/device-server\<close> or \<^verbatim>\<open>/session-server\<close> is sent only after the
  installation request of the same run was answered with an envelope that holds a
  truthy token, and it carries that token in its authentication header.
\<close>

theorem session_requires_installation:
  assumes notok: "\<not> truthy (getConfig (store w) ''installationToken'')"
  shows "(\<not> truthy (getConfig (store w) ''apiKey'') \<longrightarrow>
            refreshSession P w =
              (Exited 1, emit (ErrorLine ''No API key configured. Run: bunq config set --api-key <key>'') w))
       \<and> (truthy (getConfig (store w) ''apiKey'') \<longrightarrow>
            refreshSession P w =
              setupAuth P (emit (Info ''No installation found. Running full setup...'') w))
       \<and> (\<forall>tr req rest.
            trace (snd (refreshSession P w)) = tr @ req # rest \<and> length (trace w) \<le> length tr
            \<and> (suffix ''/device-server'' (req_url req) \<or> suffix ''/session-server'' (req_url req)) \<longrightarrow>
            (\<exists>priv pub resp tok spk pre.
               tr = trace w @ installation_request P priv pub w # pre
             \<and> axios P (trace w) (installation_request P priv pub w) = Inr resp
             \<and> parse_installation resp = Inr (tok, spk) \<and> truthy tok
             \<and> map_of (req_headers req) ''X-Bunq-Client-Authentication'' = Some tok))"
proof (cases "truthy (getConfig (store w) ''apiKey'')")
  case False
  then have eq: "refreshSession P w =
      (Exited 1, emit (ErrorLine ''No API key configured. Run: bunq config set --api-key <key>'') w)"
    by (rule refreshSession_no_key)
  have none: "\<not> (trace w = tr @ req # rest \<and> length (trace w) \<le> length tr)" for tr req rest
    by auto
  have tr_eq: "trace (snd (refreshSession P w)) = trace w"
    using eq by simp
  show ?thesis
    unfolding tr_eq using False eq none by blast
next
  case True
  let ?w0 = "emit (Info ''No installation found. Running full setup...'') w"
  have eq: "refreshSession P w = setupAuth P ?w0"
    using True notok by (rule refreshSession_delegates)
  have "\<exists>priv pub resp tok spk pre.
               tr = trace w @ installation_request P priv pub w # pre
             \<and> axios P (trace w) (installation_request P priv pub w) = Inr resp
             \<and> parse_installation resp = Inr (tok, spk) \<and> truthy tok
             \<and> map_of (req_headers req) ''X-Bunq-Client-Authentication'' = Some tok"
    if "trace (snd (refreshSession P w)) = tr @ req # rest" "length (trace w) \<le> length tr"
       "suffix ''/device-server'' (req_url req) \<or> suffix ''/session-server'' (req_url req)"
    for tr req rest
    using later_requests_follow_installation [of P ?w0 tr req rest] that eq by simp
  with True eq show ?thesis by blast
qed

theorem session_requires_installation_witness:
  "refreshSession happy_platform (world_of [(''apiKey'', JStr ''K'')]) =
     setupAuth happy_platform
       (emit (Info ''No installation found. Running full setup...'') (world_of [(''apiKey'', JStr ''K'')]))"
  using session_requires_installation [of "world_of [(''apiKey'', JStr ''K'')]" happy_platform]
  by (simp add: world_of_def getConfig_def)

text \<open>
  With an API key and no installation token the session path neither fails nor
  stays off the network: it returns after the three requests of the full setup.
\<close>

theorem create_session_counterexample:
  "getConfig (store (world_of [(''apiKey'', JStr ''K'')])) ''installationToken'' = JUndefined
   \<and> fst (refreshSession happy_platform (world_of [(''apiKey'', JStr ''K'')])) = Returned
   \<and> map req_url (trace (snd (refreshSession happy_platform (world_of [(''apiKey'', JStr ''K'')]))))
       = [''https://api.bunq.com/v1/installation'',
          ''https://api.bunq.com/v1/device-server'',
          ''https://api.bunq.com/v1/session-server'']"
  by (simp add: eval_defs)

section \<open>Refreshing the session\<close>

text \<open>
  C5, as amended. For every store with an API key: without an installation token
  \<^verbatim>\<open>refreshSession\<close> runs \<^verbatim>\<open>setupAuth\<close>; with one it sends exactly one request, a POST
  of the secret to \<^verbatim>\<open>/session-server\<close> whose authentication header is the stored
  installation token. For every store without an API key it sends nothing: it prints
  the missing-key line and exits with status 1.
\<close>

theorem refresh_session_run:
  "(\<not> truthy (getConfig (store w) ''apiKey'') \<longrightarrow>
      refreshSession P w =
        (Exited 1, emit (ErrorLine ''No API key configured. Run: bunq config set --api-key <key>'') w))
   \<and> (truthy (getConfig (store w) ''apiKey'') \<longrightarrow>
       (\<not> truthy (getConfig (store w) ''installationToken'') \<longrightarrow>
            refreshSession P w =
              setupAuth P (emit (Info ''No installation found. Running full setup...'') w))
       \<and> (truthy (getConfig (store w) ''installationToken'') \<longrightarrow>
            (\<exists>req. trace (snd (refreshSession P w)) = trace w @ [req]
               \<and> req_method req = ''POST''
               \<and> req_url req = getBaseUrl P (getConfig (store w)) @ ''/session-server''
               \<and> req_data req = JObj [(''secret'', getConfig (store w) ''apiKey'')]
               \<and> map_of (req_headers req) ''X-Bunq-Client-Authentication'' =
                   Some (getConfig (store w) ''installationToken''))))"
  using refreshSession_no_key [of w P] refreshSession_delegates [of w P] refreshSession_trace [of w P]
  by (auto simp add: request_auth)

theorem refresh_session_run_witness:
  "length (trace (snd (refreshSession happy_platform
      (world_of [(''apiKey'', JStr ''K''), (''installationToken'', JStr ''I'')])))) = 1
   \<and> map_of (req_headers (last (trace (snd (refreshSession happy_platform
      (world_of [(''apiKey'', JStr ''K''), (''installationToken'', JStr ''I'')]))))))
       ''X-Bunq-Client-Authentication'' = Some (JStr ''I'')
   \<and> req_url (last (trace (snd (refreshSession happy_platform
      (world_of [(''apiKey'', JStr ''K''), (''installationToken'', JStr ''I'')])))))
       = ''https://api.bunq.com/v1/session-server''"
  using refresh_session_run [of "world_of [(''apiKey'', JStr ''K''), (''installationToken'', JStr ''I'')]"
      happy_platform]
  by (auto simp add: world_of_def getConfig_def happy_platform_def demo_platform_def)

text \<open>
  Without an API key \<^verbatim>\<open>refreshSession\<close> sends nothing, installation token or not: it
  prints the missing-key line and exits with status 1.
\<close>

theorem refresh_counterexample:
  "getConfig (store (world_of [(''installationToken'', JStr ''I'')])) ''installationToken'' = JStr ''I''
   \<and> refreshSession happy_platform (world_of [(''installationToken'', JStr ''I'')])
       = (Exited 1,
          \<lparr>store = map_of [(''installationToken'', JStr ''I'')], trace = [],
           out = [ErrorLine ''No API key configured. Run: bunq config set --api-key <key>''],
           draws = 0\<rparr>)"
  by (simp add: eval_defs)

section \<open>The installation response\<close>



end
